theory Spec2Isabelle
  imports Complex_Main "HOL-Library.Sublist"
begin

section \<open>JSON values and Python dictionaries\<close>

text \<open>
  The worker receives JSON-decoded Python values. A Python \<^verbatim>\<open>dict\<close> with string keys is a
  partial map: \<^verbatim>\<open>k in d\<close> is \<open>k \<in> dom d\<close>, \<^verbatim>\<open>d.get(k)\<close> is \<open>d k\<close>, \<^verbatim>\<open>{**a, **b}\<close> is \<open>a ++ b\<close>
  and Python's \<^verbatim>\<open>==\<close> on dictionaries is equality of maps. Python floats are modelled by
  real numbers.
\<close>

datatype jv = JNull | JBool bool | JInt int | JFloat real | JStr string
  | JList "jv list" | JDict "string \<Rightarrow> jv option"

type_synonym pydict = "string \<Rightarrow> jv option"

text \<open>Python truthiness of a JSON value (\<^verbatim>\<open>x or default\<close>, \<^verbatim>\<open>if x:\<close>).\<close>

fun truthy :: "jv \<Rightarrow> bool" where
  "truthy JNull = False"
| "truthy (JBool b) = b"
| "truthy (JInt n) = (n \<noteq> 0)"
| "truthy (JFloat r) = (r \<noteq> 0)"
| "truthy (JStr s) = (s \<noteq> [])"
| "truthy (JList xs) = (xs \<noteq> [])"
| "truthy (JDict m) = (m \<noteq> Map.empty)"

text \<open>\<^verbatim>\<open>str.lower()\<close> on ASCII text and the substring test \<^verbatim>\<open>sub in s\<close>.\<close>

definition lower_char :: "char \<Rightarrow> char" where
  "lower_char c =
     (case map_of (zip ''ABCDEFGHIJKLMNOPQRSTUVWXYZ'' ''abcdefghijklmnopqrstuvwxyz'') c of
        Some d \<Rightarrow> d
      | None \<Rightarrow> c)"

definition lower :: "string \<Rightarrow> string" where
  "lower s = map lower_char s"

fun contains :: "string \<Rightarrow> string \<Rightarrow> bool" where
  "contains sub [] = (sub = [])"
| "contains sub (c # cs) = (prefix sub (c # cs) \<or> contains sub cs)"

definition upper_char :: "char \<Rightarrow> char" where
  "upper_char c =
     (case map_of (zip ''abcdefghijklmnopqrstuvwxyz'' ''ABCDEFGHIJKLMNOPQRSTUVWXYZ'') c of
        Some d \<Rightarrow> d
      | None \<Rightarrow> c)"

definition upper :: "string \<Rightarrow> string" where
  "upper s = map upper_char s"

text \<open>Decimal rendering of a list index, as in the f-string \<^verbatim>\<open>f"item-{idx}"\<close>.\<close>

fun show_nat :: "nat \<Rightarrow> string" where
  "show_nat n =
     (if n < 10 then [''0123456789'' ! n]
      else show_nat (n div 10) @ [''0123456789'' ! (n mod 10)])"

declare show_nat.simps [simp del]

section \<open>worker/validator.py: the schema\<close>

text \<open>
  The schema classes are pydantic models. How pydantic converts an input to \<^verbatim>\<open>int\<close>,
  \<^verbatim>\<open>float\<close> or \<^verbatim>\<open>bool\<close> in its default mode belongs to that library, so the three
  conversions are parameters of the model: \<open>int_of P v\<close> is the integer pydantic reads from
  \<open>v\<close>, or \<open>None\<close> where it rejects \<open>v\<close>. Strings are accepted as they are and nothing
  else is a string; a nested model wants a dictionary; a field that is absent takes its
  schema default, which is not validated; unknown keys are ignored.
\<close>

record pydantic =
  int_of :: "jv \<Rightarrow> int option"
  float_ok :: "jv \<Rightarrow> bool"
  bool_ok :: "jv \<Rightarrow> bool"

text \<open>
  One line of a pydantic \<^verbatim>\<open>ValidationError\<close>: a field that is missing or has the wrong
  type, or a \<^verbatim>\<open>ValueError\<close> raised by a validator of the source, with its message.
\<close>

datatype verr = FieldError string | RaisedValueError string

definition is_str :: "jv \<Rightarrow> bool" where
  "is_str v = (case v of JStr s \<Rightarrow> True | _ \<Rightarrow> False)"

definition str_min1 :: "jv \<Rightarrow> bool" where
  "str_min1 v = (case v of JStr s \<Rightarrow> s \<noteq> [] | _ \<Rightarrow> False)"

definition literal :: "string list \<Rightarrow> jv \<Rightarrow> bool" where
  "literal xs v = (case v of JStr s \<Rightarrow> s \<in> set xs | _ \<Rightarrow> False)"

definition is_int :: "pydantic \<Rightarrow> jv \<Rightarrow> bool" where
  "is_int P v = (int_of P v \<noteq> None)"

definition is_dict :: "jv \<Rightarrow> bool" where
  "is_dict v = (case v of JDict m \<Rightarrow> True | _ \<Rightarrow> False)"

text \<open>\<^verbatim>\<open>Optional[T]\<close> also accepts \<^verbatim>\<open>None\<close>.\<close>

definition nullable :: "(jv \<Rightarrow> bool) \<Rightarrow> jv \<Rightarrow> bool" where
  "nullable ok v = (v = JNull \<or> ok v)"

text \<open>A field without a default must be present; a field with a default may be absent.\<close>

definition required :: "(jv \<Rightarrow> bool) \<Rightarrow> pydict \<Rightarrow> string \<Rightarrow> verr list" where
  "required ok d k =
     (case d k of None \<Rightarrow> [FieldError k] | Some v \<Rightarrow> if ok v then [] else [FieldError k])"

definition defaulted :: "(jv \<Rightarrow> bool) \<Rightarrow> pydict \<Rightarrow> string \<Rightarrow> verr list" where
  "defaulted ok d k =
     (case d k of None \<Rightarrow> [] | Some v \<Rightarrow> if ok v then [] else [FieldError k])"

text \<open>The value of a validated optional field is \<^verbatim>\<open>None\<close> when absent or null.\<close>

definition field_none :: "pydict \<Rightarrow> string \<Rightarrow> bool" where
  "field_none d k = (d k = None \<or> d k = Some JNull)"

definition SIZE_ENUM :: "string list" where
  "SIZE_ENUM = [''infinitetalk-480'', ''infinitetalk-720'']"

definition MODE_ENUM :: "string list" where
  "MODE_ENUM = [''clip'', ''streaming'']"

definition AUDIO_MODE_ENUM :: "string list" where
  "AUDIO_MODE_ENUM = [''para'', ''add'']"

definition STORE_ENUM :: "string list" where
  "STORE_ENUM = [''s3'', ''volume'', ''inline'']"

definition QUANT_ENUM :: "string list" where
  "QUANT_ENUM = [''int8'', ''fp8'']"

definition OutputConfig_ok :: "jv \<Rightarrow> bool" where
  "OutputConfig_ok v =
     (case v of
        JDict m \<Rightarrow>
          defaulted (literal STORE_ENUM) m ''store''
          @ defaulted (nullable is_str) m ''bucket''
          @ defaulted (nullable is_str) m ''region''
          @ defaulted (nullable is_str) m ''prefix'' = []
      | _ \<Rightarrow> False)"

definition TtsAudio_ok :: "jv \<Rightarrow> bool" where
  "TtsAudio_ok v =
     (case v of
        JDict m \<Rightarrow>
          required str_min1 m ''text''
          @ defaulted (nullable is_str) m ''human1_voice''
          @ defaulted (nullable is_str) m ''human2_voice'' = []
      | _ \<Rightarrow> False)"

definition CondAudio_ok :: "jv \<Rightarrow> bool" where
  "CondAudio_ok v =
     (case v of
        JDict m \<Rightarrow>
          defaulted (nullable is_str) m ''person1''
          @ defaulted (nullable is_str) m ''person2'' = []
      | _ \<Rightarrow> False)"

text \<open>
  The field validator of \<^verbatim>\<open>frame_num\<close>, the same in \<^verbatim>\<open>SingleInput\<close> and
  \<^verbatim>\<open>BatchInput\<close>. Python's \<^verbatim>\<open>%\<close> with the positive divisor 4 is \<open>mod\<close> on \<open>int\<close>.
\<close>

definition validate_frame_num_4n_plus_1 :: "int \<Rightarrow> string + int" where
  "validate_frame_num_4n_plus_1 v =
     (if v \<le> 0 \<or> (v - 1) mod 4 \<noteq> 0 then Inl ''frame_num must be 4n+1 and positive''
      else Inr v)"

text \<open>
  The field \<^verbatim>\<open>frame_num: int = 81\<close> with its validator: pydantic converts the input
  first and hands the integer to the validator.
\<close>

definition frame_num_field :: "pydantic \<Rightarrow> pydict \<Rightarrow> verr list" where
  "frame_num_field P d =
     (case d ''frame_num'' of
        None \<Rightarrow> []
      | Some x \<Rightarrow>
          (case int_of P x of
             None \<Rightarrow> [FieldError ''frame_num'']
           | Some v \<Rightarrow>
               (case validate_frame_num_4n_plus_1 v of
                  Inl m \<Rightarrow> [RaisedValueError m]
                | Inr _ \<Rightarrow> [])))"

text \<open>
  \<^verbatim>\<open>validate_bbox\<close> sees the list pydantic has already converted to integers, so its
  test \<^verbatim>\<open>type(x) is not int\<close> holds for no element; what is left is the length.
\<close>

definition validate_bbox :: "int list option \<Rightarrow> string + int list option" where
  "validate_bbox v =
     (case v of
        None \<Rightarrow> Inr None
      | Some xs \<Rightarrow>
          if length xs \<noteq> 4 then Inl ''bbox must be an array of 4 integers [x1,y1,x2,y2]''
          else Inr (Some xs))"

definition int_list_ok :: "pydantic \<Rightarrow> jv \<Rightarrow> bool" where
  "int_list_ok P v = (case v of JList xs \<Rightarrow> list_all (is_int P) xs | _ \<Rightarrow> False)"

definition bbox_field :: "pydantic \<Rightarrow> pydict \<Rightarrow> verr list" where
  "bbox_field P d =
     (case d ''bbox'' of
        None \<Rightarrow> []
      | Some JNull \<Rightarrow> []
      | Some (JList xs) \<Rightarrow>
          if list_all (is_int P) xs then
            (case validate_bbox (Some (map (\<lambda>x. the (int_of P x)) xs)) of
               Inl m \<Rightarrow> [RaisedValueError m]
             | Inr _ \<Rightarrow> [])
          else [FieldError ''bbox'']
      | Some _ \<Rightarrow> [FieldError ''bbox''])"

text \<open>The generation parameters, declared alike in both input classes.\<close>

definition generation_fields :: "pydantic \<Rightarrow> pydict \<Rightarrow> verr list" where
  "generation_fields P d =
     defaulted (literal SIZE_ENUM) d ''size''
     @ defaulted (literal MODE_ENUM) d ''mode''
     @ frame_num_field P d
     @ defaulted (is_int P) d ''max_frame_num''
     @ defaulted (is_int P) d ''sample_steps''
     @ defaulted (float_ok P) d ''sample_text_guide_scale''
     @ defaulted (float_ok P) d ''sample_audio_guide_scale''
     @ defaulted (is_int P) d ''motion_frame''
     @ defaulted (float_ok P) d ''color_correction_strength''
     @ defaulted (bool_ok P) d ''use_teacache''
     @ defaulted (float_ok P) d ''teacache_thresh''
     @ defaulted (bool_ok P) d ''use_apg''
     @ defaulted (float_ok P) d ''apg_momentum''
     @ defaulted (float_ok P) d ''apg_norm_threshold''
     @ defaulted (is_int P) d ''base_seed''
     @ defaulted (nullable (is_int P)) d ''num_persistent_param_in_dit''
     @ defaulted (nullable (bool_ok P)) d ''offload_model''
     @ defaulted (nullable (literal QUANT_ENUM)) d ''quant''
     @ defaulted (nullable is_str) d ''quant_dir''
     @ defaulted (nullable is_str) d ''n_prompt''"

definition SingleInput_fields :: "pydantic \<Rightarrow> pydict \<Rightarrow> verr list" where
  "SingleInput_fields P d =
     required str_min1 d ''prompt''
     @ required is_str d ''cond_video''
     @ defaulted (nullable CondAudio_ok) d ''cond_audio''
     @ defaulted (nullable TtsAudio_ok) d ''tts_audio''
     @ defaulted (nullable (literal AUDIO_MODE_ENUM)) d ''audio_type''
     @ bbox_field P d
     @ generation_fields P d
     @ defaulted OutputConfig_ok d ''output_config''"

definition BatchInput_fields :: "pydantic \<Rightarrow> pydict \<Rightarrow> verr list" where
  "BatchInput_fields P d =
     defaulted (nullable is_str) d ''id''
     @ required is_str d ''prompt''
     @ required is_str d ''cond_video''
     @ defaulted (nullable CondAudio_ok) d ''cond_audio''
     @ defaulted (nullable TtsAudio_ok) d ''tts_audio''
     @ defaulted (nullable (literal AUDIO_MODE_ENUM)) d ''audio_type''
     @ defaulted (nullable (int_list_ok P)) d ''bbox''
     @ generation_fields P d"

text \<open>
  The model validator \<^verbatim>\<open>validate_audio_refs\<close> (mode "after") of both classes: it
  reads validated fields and raises at the first violated rule.
\<close>

definition validate_audio_refs :: "pydict \<Rightarrow> string + unit" where
  "validate_audio_refs d =
     (if field_none d ''cond_audio'' \<and> field_none d ''tts_audio''
      then Inl ''Either cond_audio or tts_audio must be provided.''
      else if \<not> field_none d ''cond_audio''
              \<and> (case d ''cond_audio'' of
                    Some (JDict m) \<Rightarrow> \<not> field_none m ''person2''
                  | _ \<Rightarrow> False)
              \<and> field_none d ''audio_type''
      then Inl ''audio_type is required when two speakers are provided (person1 & person2).''
      else if \<not> field_none d ''quant''
              \<and> (field_none d ''quant_dir'' \<or> d ''quant_dir'' = Some (JStr []))
      then Inl ''quant_dir must be provided when quant is set.''
      else Inr ())"

text \<open>
  \<^verbatim>\<open>Model.model_validate(d)\<close>: every field is checked and the errors are collected; the
  "after" validator runs only when no field failed.
\<close>

definition SingleInput_model_validate :: "pydantic \<Rightarrow> pydict \<Rightarrow> verr list + unit" where
  "SingleInput_model_validate P d =
     (if SingleInput_fields P d \<noteq> [] then Inl (SingleInput_fields P d)
      else case validate_audio_refs d of
             Inl m \<Rightarrow> Inl [RaisedValueError m]
           | Inr _ \<Rightarrow> Inr ())"

definition BatchInput_model_validate :: "pydantic \<Rightarrow> jv \<Rightarrow> verr list + unit" where
  "BatchInput_model_validate P it =
     (case it of
        JDict d \<Rightarrow>
          if BatchInput_fields P d \<noteq> [] then Inl (BatchInput_fields P d)
          else (case validate_audio_refs d of
                  Inl m \<Rightarrow> Inl [RaisedValueError m]
                | Inr _ \<Rightarrow> Inr ())
      | _ \<Rightarrow> Inl [FieldError ''BatchInput''])"

text \<open>The loop \<^verbatim>\<open>for it in items: BatchInput.model_validate(it)\<close> stops at the first failure.\<close>

fun validate_items :: "pydantic \<Rightarrow> jv list \<Rightarrow> verr list + unit" where
  "validate_items P [] = Inr ()"
| "validate_items P (it # its) =
     (case BatchInput_model_validate P it of
        Inl e \<Rightarrow> Inl e
      | Inr _ \<Rightarrow> validate_items P its)"

text \<open>
  \<^verbatim>\<open>EnvelopeInput\<close>: the field \<^verbatim>\<open>input\<close> is a required dictionary, \<^verbatim>\<open>policy\<close> an
  optional one; \<^verbatim>\<open>check_single_or_batch\<close> then selects the mode by the presence of the
  key \<^verbatim>\<open>batch\<close>. The result is the validated \<^verbatim>\<open>env.input\<close>.
\<close>

definition check_single_or_batch :: "pydantic \<Rightarrow> pydict \<Rightarrow> verr list + unit" where
  "check_single_or_batch P payload =
     (case payload ''batch'' of
        Some items \<Rightarrow>
          (case items of
             JList its \<Rightarrow>
               if its = [] then Inl [RaisedValueError ''batch must be a non-empty array of input objects.'']
               else validate_items P its
           | _ \<Rightarrow> Inl [RaisedValueError ''batch must be a non-empty array of input objects.''])
      | None \<Rightarrow> SingleInput_model_validate P payload)"

definition EnvelopeInput_model_validate :: "pydantic \<Rightarrow> pydict \<Rightarrow> verr list + pydict" where
  "EnvelopeInput_model_validate P envelope =
     (if required is_dict envelope ''input'' @ defaulted (nullable is_dict) envelope ''policy'' \<noteq> []
      then Inl (required is_dict envelope ''input'' @ defaulted (nullable is_dict) envelope ''policy'')
      else case envelope ''input'' of
             Some (JDict payload) \<Rightarrow>
               (case check_single_or_batch P payload of
                  Inl e \<Rightarrow> Inl e
                | Inr _ \<Rightarrow> Inr payload)
           | _ \<Rightarrow> Inl [FieldError ''input''])"

section \<open>worker/validator.py: defaults and normalization\<close>

text \<open>
  What \<^verbatim>\<open>normalize_and_validate\<close> can raise: pydantic's \<^verbatim>\<open>ValidationError\<close>, or the
  \<^verbatim>\<open>TypeError\<close> of \<^verbatim>\<open>{**x}\<close> when the \<^verbatim>\<open>generation\<close> entry of the defaults document is
  not a mapping.
\<close>

datatype norm_error = ValidationError "verr list" | TypeError

text \<open>
  \<^verbatim>\<open>defaults.get("generation", {})\<close> as \<^verbatim>\<open>**\<close> unpacks it: the empty dictionary when
  the key is absent, the entry when it is a dictionary, no mapping at all otherwise.
\<close>

definition generation_of :: "pydict \<Rightarrow> pydict option" where
  "generation_of defaults =
     (case defaults ''generation'' of
        None \<Rightarrow> Some Map.empty
      | Some (JDict g) \<Rightarrow> Some g
      | Some _ \<Rightarrow> None)"

definition apply_defaults_to_single :: "pydict \<Rightarrow> pydict \<Rightarrow> norm_error + pydict" where
  "apply_defaults_to_single single defaults =
     (case generation_of defaults of
        None \<Rightarrow> Inl TypeError
      | Some g \<Rightarrow>
          (let merged = g ++ single in
           if ''output_config'' \<notin> dom merged \<and> ''output'' \<in> dom defaults
           then Inr (merged(''output_config'' := defaults ''output''))
           else Inr merged))"

text \<open>The loop over the batch items: merge, validate again, collect.\<close>

fun normalize_items :: "pydantic \<Rightarrow> pydict \<Rightarrow> jv list \<Rightarrow> norm_error + pydict list" where
  "normalize_items P defaults [] = Inr []"
| "normalize_items P defaults (it # its) =
     (case it of
        JDict single \<Rightarrow>
          (case apply_defaults_to_single single defaults of
             Inl e \<Rightarrow> Inl e
           | Inr merged \<Rightarrow>
               (case BatchInput_model_validate P (JDict merged) of
                  Inl e \<Rightarrow> Inl (ValidationError e)
                | Inr _ \<Rightarrow>
                    (case normalize_items P defaults its of
                       Inl e \<Rightarrow> Inl e
                     | Inr rest \<Rightarrow> Inr (merged # rest))))
      | _ \<Rightarrow> Inl TypeError)"

definition normalize_and_validate :: "pydantic \<Rightarrow> pydict \<Rightarrow> pydict \<Rightarrow> norm_error + pydict" where
  "normalize_and_validate P envelope defaults =
     (case EnvelopeInput_model_validate P envelope of
        Inl e \<Rightarrow> Inl (ValidationError e)
      | Inr payload \<Rightarrow>
          (case payload ''batch'' of
             Some items \<Rightarrow>
               (case items of
                  JList its \<Rightarrow>
                    (case normalize_items P defaults its of
                       Inl e \<Rightarrow> Inl e
                     | Inr normalized_items \<Rightarrow>
                         (let result = [''batch'' \<mapsto> JList (map JDict normalized_items)] in
                          if ''output_config'' \<in> dom payload
                          then Inr (result(''output_config'' := payload ''output_config''))
                          else Inr result))
                | _ \<Rightarrow> Inl TypeError)
           | None \<Rightarrow>
               (case apply_defaults_to_single payload defaults of
                  Inl e \<Rightarrow> Inl e
                | Inr merged \<Rightarrow>
                    (case SingleInput_model_validate P merged of
                       Inl e \<Rightarrow> Inl (ValidationError e)
                     | Inr _ \<Rightarrow> Inr merged))))"

text \<open>
  A concrete reading of the three conversions, for evaluating examples: integers, numbers
  and booleans, each accepted only as itself.
\<close>

definition strict_json :: pydantic where
  "strict_json =
     \<lparr>int_of = (\<lambda>v. case v of JInt n \<Rightarrow> Some n | _ \<Rightarrow> None),
      float_ok = (\<lambda>v. case v of JFloat r \<Rightarrow> True | JInt n \<Rightarrow> True | _ \<Rightarrow> False),
      bool_ok = (\<lambda>v. case v of JBool b \<Rightarrow> True | _ \<Rightarrow> False)\<rparr>"

text \<open>
  The defaults document puts no key \<^verbatim>\<open>batch\<close> under \<^verbatim>\<open>generation\<close>: a condition
  on the operator's file, under which a single payload stays a single payload after the
  merge.
\<close>

definition no_batch_default :: "pydict \<Rightarrow> bool" where
  "no_batch_default defaults =
     (case generation_of defaults of None \<Rightarrow> True | Some g \<Rightarrow> g ''batch'' = None)"

text \<open>
  A minimal acceptable single payload, an envelope around it and a defaults document, for
  evaluating examples.
\<close>

definition example_payload :: pydict where
  "example_payload =
     [''prompt'' \<mapsto> JStr ''hello'',
      ''cond_video'' \<mapsto> JStr ''https://example.com/a.png'',
      ''cond_audio'' \<mapsto> JDict [''person1'' \<mapsto> JStr ''https://example.com/a.wav'']]"

definition example_envelope :: pydict where
  "example_envelope = [''input'' \<mapsto> JDict example_payload]"

definition example_defaults :: pydict where
  "example_defaults =
     [''generation'' \<mapsto> JDict [''sample_steps'' \<mapsto> JInt 8],
      ''output'' \<mapsto> JDict [''store'' \<mapsto> JStr ''inline'']]"

definition example_normalized :: pydict where
  "example_normalized =
     ([''sample_steps'' \<mapsto> JInt 8] ++ example_payload)
       (''output_config'' \<mapsto> JDict [''store'' \<mapsto> JStr ''inline''])"

section \<open>Exceptions, the environment and the observable trace\<close>

text \<open>
  A Python exception is its class and its message \<^verbatim>\<open>str(e)\<close>. Only classes deriving from
  \<^verbatim>\<open>Exception\<close> are modelled. \<open>OutOfMemoryError\<close> is \<^verbatim>\<open>torch.cuda.OutOfMemoryError\<close>, which
  PyTorch derives from \<^verbatim>\<open>RuntimeError\<close>; \<^verbatim>\<open>NotImplementedError\<close> derives from
  \<^verbatim>\<open>RuntimeError\<close> too; \<open>MemoryError\<close> is Python's builtin. \<open>OtherException n\<close> is a class
  named \<open>n\<close> that derives from none of the classes the source catches by name.
\<close>

datatype exc_class = RuntimeError | NotImplementedError | OutOfMemoryError | MemoryError
  | ValueError | KeyError | AttributeError | OSError | OtherException string

datatype exn = Exn (cls: exc_class) (msg: string)

definition class_name :: "exc_class \<Rightarrow> string" where
  "class_name c =
     (case c of
        RuntimeError \<Rightarrow> ''RuntimeError''
      | NotImplementedError \<Rightarrow> ''NotImplementedError''
      | OutOfMemoryError \<Rightarrow> ''OutOfMemoryError''
      | MemoryError \<Rightarrow> ''MemoryError''
      | ValueError \<Rightarrow> ''ValueError''
      | KeyError \<Rightarrow> ''KeyError''
      | AttributeError \<Rightarrow> ''AttributeError''
      | OSError \<Rightarrow> ''OSError''
      | OtherException n \<Rightarrow> n)"

text \<open>\<^verbatim>\<open>isinstance(e, RuntimeError)\<close> and \<^verbatim>\<open>isinstance(e, torch.cuda.OutOfMemoryError)\<close>.\<close>

definition is_RuntimeError :: "exn \<Rightarrow> bool" where
  "is_RuntimeError e = (cls e \<in> {RuntimeError, NotImplementedError, OutOfMemoryError})"

definition is_OutOfMemoryError :: "exn \<Rightarrow> bool" where
  "is_OutOfMemoryError e = (cls e = OutOfMemoryError)"

text \<open>
  What the worker does to the outside is recorded, in order, in a trace: the lines of the
  JSON logger (level, event and, for a progress line, its percentage), the progress
  updates sent to the Runpod SDK, the calls of \<^verbatim>\<open>_seed_everything\<close>, the keep-warm
  heartbeats, the sleeps, and the calls to the collaborators.
\<close>

record gen_args =
  size_buckget :: jv
  motion_frame :: jv
  frame_num :: jv
  shift :: int
  sampling_steps :: jv
  text_guide_scale :: jv
  audio_guide_scale :: jv
  seed :: jv
  offload_model :: jv
  max_frames_num :: jv
  color_correction_strength :: jv

datatype event =
    Log string string "int option"
  | ProgressUpdate string int
  | Seed int
  | KeepWarm
  | Sleep real
  | HttpGet string
  | BuildPipeline
  | Generate gen_args
  | SaveVideo string
  | Put string string

record world =
  trace :: "event list"
  clock_reads :: nat

definition emit_event :: "event \<Rightarrow> world \<Rightarrow> world" where
  "emit_event e w = w\<lparr>trace := trace w @ [e]\<rparr>"

text \<open>The projections of a trace the properties speak about.\<close>

fun seeds_of :: "event list \<Rightarrow> int list" where
  "seeds_of [] = []"
| "seeds_of (Seed s # es) = s # seeds_of es"
| "seeds_of (_ # es) = seeds_of es"

fun progress_of :: "event list \<Rightarrow> (string \<times> int) list" where
  "progress_of [] = []"
| "progress_of (Log l n (Some p) # es) = (n, p) # progress_of es"
| "progress_of (_ # es) = progress_of es"

fun generates_of :: "event list \<Rightarrow> gen_args list" where
  "generates_of [] = []"
| "generates_of (Generate a # es) = a # generates_of es"
| "generates_of (_ # es) = generates_of es"

fun sleeps_of :: "event list \<Rightarrow> real list" where
  "sleeps_of [] = []"
| "sleeps_of (Sleep s # es) = s # sleeps_of es"
| "sleeps_of (_ # es) = sleeps_of es"

fun gets_of :: "event list \<Rightarrow> string list" where
  "gets_of [] = []"
| "gets_of (HttpGet u # es) = u # gets_of es"
| "gets_of (_ # es) = gets_of es"

fun builds_of :: "event list \<Rightarrow> nat" where
  "builds_of [] = 0"
| "builds_of (BuildPipeline # es) = Suc (builds_of es)"
| "builds_of (_ # es) = builds_of es"

text \<open>
  The reply of one HTTP download: the \<^verbatim>\<open>Content-Type\<close> header, the number of bytes
  written and the SHA-256 digest of the body in hexadecimal.
\<close>

record http_response =
  content_type :: "string option"
  total :: nat
  hexdigest :: string

text \<open>
  The environment: everything the worker reads or calls that is not code of the
  repository. A collaborator that is called several times answers by the number of calls
  made before, so that a later call may behave differently from an earlier one.
  \<^verbatim>\<open>os.makedirs(path, exist_ok=True)\<close> answers by the events so far, which decide what
  the file system holds: \<open>None\<close> when the directory is there afterwards, the exception
  otherwise. \<open>str_of_value\<close> is \<^verbatim>\<open>str\<close> on a float, a list, a dictionary or \<^verbatim>\<open>None\<close>,
  and \<open>str_of_output_error\<close> the message of pydantic's error on an envelope whose
  \<^verbatim>\<open>job_id\<close> is the given value.
\<close>

record env =
  lax :: pydantic
  defaults_doc :: pydict
  uuid4 :: string
  iso_now :: "nat \<Rightarrow> string"
  sdk_progress :: bool
  keep_warm_on :: bool
  str_of_norm_error :: "norm_error \<Rightarrow> string"
  path_exists :: "string \<Rightarrow> bool"
  getsize :: "string \<Rightarrow> exn + nat"
  b64_valid :: "string \<Rightarrow> bool"
  b64_to_file :: "string \<Rightarrow> string \<Rightarrow> exn + nat"
  url_scheme :: "string \<Rightarrow> string"
  url_basename :: "string \<Rightarrow> string"
  splitext_ext :: "string \<Rightarrow> string"
  http_get :: "nat \<Rightarrow> string \<Rightarrow> exn + http_response"
  WAV2VEC_DIR :: "string option"
  CKPT_DIR :: "string option"
  INFINITETALK_DIR :: "string option"
  custom_init :: "exn option"
  audio_embed :: "string list \<Rightarrow> exn option"
  build_pipeline :: "nat \<Rightarrow> pydict \<Rightarrow> exn option"
  generate_infinitetalk :: "nat \<Rightarrow> gen_args \<Rightarrow> exn option"
  py_int :: "jv \<Rightarrow> exn + int"
  format_save_name :: "pydict \<Rightarrow> string"
  save_video_ffmpeg :: "string \<Rightarrow> exn option"
  put :: "string \<Rightarrow> string \<Rightarrow> exn + int"
  not_a_string :: "jv \<Rightarrow> exn"
  read_base64 :: "string \<Rightarrow> bool"
  makedirs :: "event list \<Rightarrow> string \<Rightarrow> exn option"
  str_of_value :: "jv \<Rightarrow> string"
  str_of_output_error :: "jv \<Rightarrow> string"

section \<open>worker/storage.py: downloads with retry\<close>

definition MAX_RETRIES :: nat where
  "MAX_RETRIES = 3"

definition BACKOFF_SEC :: real where
  "BACKOFF_SEC = 1.5"

record DownloadResult =
  path :: string
  bytes :: nat
  mime :: "string option"
  from_url :: "string option"

definition mime_to_ext :: "string option \<Rightarrow> string" where
  "mime_to_ext m =
     (case m of
        None \<Rightarrow> ''''
      | Some t \<Rightarrow>
          (case map_of
             [(''image/jpeg'', ''.jpg''), (''image/png'', ''.png''), (''image/webp'', ''.webp''),
              (''video/mp4'', ''.mp4''), (''video/quicktime'', ''.mov''),
              (''audio/wav'', ''.wav''), (''audio/x-wav'', ''.wav''), (''audio/mpeg'', ''.mp3''),
              (''audio/mp3'', ''.mp3''), (''audio/flac'', ''.flac''), (''audio/ogg'', ''.ogg'')] t of
             None \<Rightarrow> ''''
           | Some e \<Rightarrow> e))"

text \<open>\<^verbatim>\<open>os.path.join(a, b)\<close> for a directory \<open>a\<close> without a trailing slash.\<close>

definition path_join :: "string \<Rightarrow> string \<Rightarrow> string" where
  "path_join a b = (if prefix ''/'' b then b else a @ ''/'' @ b)"

definition is_base64_payload :: "env \<Rightarrow> string \<Rightarrow> bool" where
  "is_base64_payload E s =
     (if prefix ''data:'' s \<and> contains '';base64,'' s then True else b64_valid E s)"

text \<open>
  \<^verbatim>\<open>decode_base64_to_file\<close>: the decoding and the writing of the file are the
  environment's; the media type of a data URL is the text between the first colon and the
  next semicolon.
\<close>

definition data_url_mime :: "string \<Rightarrow> string" where
  "data_url_mime s = takeWhile (\<lambda>c. c \<noteq> CHR '';'' \<and> c \<noteq> CHR '':'' \<and> c \<noteq> CHR '','')
                       (drop 1 (dropWhile (\<lambda>c. c \<noteq> CHR '':'' \<and> c \<noteq> CHR '','') s))"

definition decode_base64_to_file :: "env \<Rightarrow> string \<Rightarrow> string \<Rightarrow> string \<Rightarrow> exn + DownloadResult" where
  "decode_base64_to_file E data workdir suggested_name =
     (if prefix ''data:'' data \<and> contains '';base64,'' data then
        (let m = data_url_mime data;
             out = path_join workdir (suggested_name @ mime_to_ext (Some m)) in
         case b64_to_file E data out of
           Inl e \<Rightarrow> Inl e
         | Inr n \<Rightarrow> Inr \<lparr>path = out, bytes = n, mime = Some m, from_url = None\<rparr>)
      else
        (let out = path_join workdir suggested_name in
         case b64_to_file E data out of
           Inl e \<Rightarrow> Inl e
         | Inr n \<Rightarrow> Inr \<lparr>path = out, bytes = n, mime = None, from_url = None\<rparr>))"

text \<open>
  The body of one attempt, inside \<^verbatim>\<open>try\<close>: the request (the trace records it), the
  file name, and the checksum test, whose \<^verbatim>\<open>ValueError\<close> is raised inside the
  \<^verbatim>\<open>try\<close> as well. \<open>attempt_result\<close> is what the attempt yields when \<open>k\<close> requests
  were made before it.
\<close>

definition attempt_name :: "env \<Rightarrow> string \<Rightarrow> string option \<Rightarrow> string option \<Rightarrow> string" where
  "attempt_name E url filename m =
     (let ext = mime_to_ext m;
          name = (case filename of
                    Some f \<Rightarrow> if f \<noteq> [] then f
                              else if url_basename E url \<noteq> [] then url_basename E url
                              else ''blob'' @ ext
                  | None \<Rightarrow> if url_basename E url \<noteq> [] then url_basename E url
                            else ''blob'' @ ext)
      in if splitext_ext E name = [] \<and> ext \<noteq> [] then name @ ext else name)"

definition attempt_result ::
  "env \<Rightarrow> string \<Rightarrow> string \<Rightarrow> string option \<Rightarrow> string option \<Rightarrow> nat
     \<Rightarrow> exn + DownloadResult" where
  "attempt_result E url workdir filename checksum_sha256 k =
     (case http_get E k url of
        Inl e \<Rightarrow> Inl e
      | Inr r \<Rightarrow>
          (case checksum_sha256 of
             Some c \<Rightarrow>
               if c \<noteq> [] \<and> hexdigest r \<noteq> lower c
               then Inl (Exn ValueError ''Checksum mismatch for downloaded file.'')
               else Inr \<lparr>path = path_join workdir (attempt_name E url filename (content_type r)),
                         bytes = total r, mime = content_type r, from_url = Some url\<rparr>
           | None \<Rightarrow>
               Inr \<lparr>path = path_join workdir (attempt_name E url filename (content_type r)),
                    bytes = total r, mime = content_type r, from_url = Some url\<rparr>))"

definition download_attempt ::
  "env \<Rightarrow> string \<Rightarrow> string \<Rightarrow> string option \<Rightarrow> string option \<Rightarrow> world
     \<Rightarrow> (exn + DownloadResult) \<times> world" where
  "download_attempt E url workdir filename checksum_sha256 w =
     (attempt_result E url workdir filename checksum_sha256 (length (gets_of (trace w))),
      emit_event (HttpGet url) w)"

text \<open>
  The loop \<^verbatim>\<open>for attempt in range(1, MAX_RETRIES + 1)\<close>, over the list of attempt
  numbers still to run. A successful attempt returns; a failed one re-raises when it is
  attempt \<^verbatim>\<open>MAX_RETRIES\<close> and sleeps \<^verbatim>\<open>BACKOFF_SEC * attempt\<close> otherwise. After the loop
  comes the \<^verbatim>\<open>raise last_err or RuntimeError(...)\<close>.
\<close>

fun download_loop ::
  "env \<Rightarrow> string \<Rightarrow> string \<Rightarrow> string option \<Rightarrow> string option \<Rightarrow> nat list \<Rightarrow> exn option
     \<Rightarrow> world \<Rightarrow> (exn + DownloadResult) \<times> world" where
  "download_loop E url workdir filename checksum [] last_err w =
     (case last_err of
        Some e \<Rightarrow> (Inl e, w)
      | None \<Rightarrow> (Inl (Exn RuntimeError ''Unknown download error''), w))"
| "download_loop E url workdir filename checksum (attempt # rest) last_err w =
     (case download_attempt E url workdir filename checksum w of
        (Inr r, w1) \<Rightarrow> (Inr r, w1)
      | (Inl e, w1) \<Rightarrow>
          if attempt = MAX_RETRIES then (Inl e, w1)
          else download_loop E url workdir filename checksum rest (Some e)
                 (emit_event (Sleep (BACKOFF_SEC * real attempt)) w1))"

definition download_from_url ::
  "env \<Rightarrow> string \<Rightarrow> string \<Rightarrow> string option \<Rightarrow> string option \<Rightarrow> world
     \<Rightarrow> (exn + DownloadResult) \<times> world" where
  "download_from_url E ref workdir filename checksum_sha256 w =
     (if path_exists E ref then
        (case getsize E ref of
           Inl e \<Rightarrow> (Inl e, w)
         | Inr n \<Rightarrow> (Inr \<lparr>path = ref, bytes = n, mime = None, from_url = None\<rparr>, w))
      else if is_base64_payload E ref then
        (decode_base64_to_file E ref workdir
           (case filename of Some f \<Rightarrow> if f \<noteq> [] then f else ''blob'' | None \<Rightarrow> ''blob''), w)
      else if url_scheme E ref \<in> set [''http'', ''https''] then
        download_loop E ref workdir filename checksum_sha256 [1..<MAX_RETRIES + 1] None w
      else
        (Inl (Exn ValueError
           ''Unsupported input reference; must be http(s) URL, base64, or existing local path.''), w))"

section \<open>worker/pipeline.py: the inference wrapper\<close>

text \<open>\<^verbatim>\<open>d.get(k, default)\<close>, \<^verbatim>\<open>not v\<close> for an environment variable, and \<^verbatim>\<open>str(KeyError(k))\<close>.\<close>

definition get_or :: "pydict \<Rightarrow> string \<Rightarrow> jv \<Rightarrow> jv" where
  "get_or d k dflt = (case d k of None \<Rightarrow> dflt | Some v \<Rightarrow> v)"

definition unset :: "string option \<Rightarrow> bool" where
  "unset v = (case v of None \<Rightarrow> True | Some s \<Rightarrow> s = [])"

definition key_error :: "string \<Rightarrow> exn" where
  "key_error k = Exn KeyError ([CHR 0x27] @ k @ [CHR 0x27])"

text \<open>
  A reference taken from the parameters and handed to \<^verbatim>\<open>download_from_url\<close> with a
  file name; a value that is no string makes the string operations there raise.
\<close>

definition download_ref ::
  "env \<Rightarrow> jv \<Rightarrow> string \<Rightarrow> string \<Rightarrow> world \<Rightarrow> (exn + DownloadResult) \<times> world" where
  "download_ref E v workdir filename w =
     (case v of
        JStr ref \<Rightarrow> download_from_url E ref workdir (Some filename) None w
      | _ \<Rightarrow> (Inl (not_a_string E v), w))"

text \<open>
  The audio branch of \<^verbatim>\<open>_prepare_inputs\<close>. The preparation of the audio arrays, the
  embeddings and the files written are one call of the environment, \<open>audio_embed\<close>, on
  the downloaded paths.
\<close>

definition two_speakers ::
  "env \<Rightarrow> pydict \<Rightarrow> pydict \<Rightarrow> string \<Rightarrow> pydict \<Rightarrow> world \<Rightarrow> (exn + pydict) \<times> world" where
  "two_speakers E params ca workdir input_data w =
     (case download_ref E (get_or ca ''person1'' JNull) workdir ''p1'' w of
        (Inl e, w1) \<Rightarrow> (Inl e, w1)
      | (Inr p1, w1) \<Rightarrow>
          (case download_ref E (get_or ca ''person2'' JNull) workdir ''p2'' w1 of
             (Inl e, w2) \<Rightarrow> (Inl e, w2)
           | (Inr p2, w2) \<Rightarrow>
               (case audio_embed E [path p1, path p2] of
                  Some e \<Rightarrow> (Inl e, w2)
                | None \<Rightarrow>
                    (let audio_save_dir = path_join workdir ''audio'';
                         audio_type = (case params ''audio_type'' of
                                         None \<Rightarrow> JStr ''para''
                                       | Some t \<Rightarrow> if truthy t then t else JStr ''para'')
                     in (Inr (input_data
                          (''cond_audio'' \<mapsto>
                             JDict [''person1'' \<mapsto> JStr (path_join audio_save_dir ''1.pt''),
                                    ''person2'' \<mapsto> JStr (path_join audio_save_dir ''2.pt'')],
                           ''audio_type'' \<mapsto> audio_type,
                           ''video_audio'' \<mapsto> JStr (path_join audio_save_dir ''sum.wav''))), w2)))))"

definition single_speaker ::
  "env \<Rightarrow> pydict \<Rightarrow> string \<Rightarrow> pydict \<Rightarrow> world \<Rightarrow> (exn + pydict) \<times> world" where
  "single_speaker E ca workdir input_data w =
     (case download_ref E (get_or ca ''person1'' JNull) workdir ''p1'' w of
        (Inl e, w1) \<Rightarrow> (Inl e, w1)
      | (Inr p1, w1) \<Rightarrow>
          (case audio_embed E [path p1] of
             Some e \<Rightarrow> (Inl e, w1)
           | None \<Rightarrow>
               (let audio_save_dir = path_join workdir ''audio''
                in (Inr (input_data
                     (''cond_audio'' \<mapsto>
                        JDict [''person1'' \<mapsto> JStr (path_join audio_save_dir ''1.pt'')],
                      ''video_audio'' \<mapsto> JStr (path_join audio_save_dir ''sum.wav''))), w1))))"

text \<open>\<^verbatim>\<open>x and x.get(k)\<close> as a condition; \<open>None\<close> is the \<^verbatim>\<open>AttributeError\<close> of a truthy \<open>x\<close> without \<^verbatim>\<open>get\<close>.\<close>

definition and_get :: "jv option \<Rightarrow> string \<Rightarrow> bool option" where
  "and_get x k =
     (case x of
        None \<Rightarrow> Some False
      | Some v \<Rightarrow>
          if \<not> truthy v then Some False
          else (case v of
                  JDict m \<Rightarrow> Some (case m k of None \<Rightarrow> False | Some y \<Rightarrow> truthy y)
                | _ \<Rightarrow> None))"

definition no_get :: exn where
  "no_get = Exn AttributeError ''object has no attribute get''"

definition audio_inputs ::
  "env \<Rightarrow> pydict \<Rightarrow> string \<Rightarrow> pydict \<Rightarrow> world \<Rightarrow> (exn + pydict) \<times> world" where
  "audio_inputs E params workdir input_data w =
     (case and_get (params ''cond_audio'') ''person1'' of
        None \<Rightarrow> (Inl no_get, w)
      | Some True \<Rightarrow>
          (case params ''cond_audio'' of
             Some (JDict ca) \<Rightarrow>
               if \<not> field_none ca ''person2'' then two_speakers E params ca workdir input_data w
               else single_speaker E ca workdir input_data w
           | _ \<Rightarrow> (Inl no_get, w))
      | Some False \<Rightarrow>
          (case and_get (params ''tts_audio'') ''text'' of
             None \<Rightarrow> (Inl no_get, w)
           | Some True \<Rightarrow>
               (Inl (Exn NotImplementedError
                  ''tts_audio is not supported in this worker build. Provide cond_audio instead.''), w)
           | Some False \<Rightarrow>
               (Inl (Exn ValueError ''cond_audio or tts_audio must be provided.''), w)))"

definition prepare_inputs ::
  "env \<Rightarrow> pydict \<Rightarrow> string \<Rightarrow> world \<Rightarrow> (exn + pydict) \<times> world" where
  "prepare_inputs E params workdir w =
     (case params ''prompt'' of
        None \<Rightarrow> (Inl (key_error ''prompt''), w)
      | Some prompt \<Rightarrow>
          (case params ''cond_video'' of
             None \<Rightarrow> (Inl (key_error ''cond_video''), w)
           | Some cv \<Rightarrow>
               (case download_ref E cv workdir ''cond_video'' w of
                  (Inl e, w1) \<Rightarrow> (Inl e, w1)
                | (Inr vid, w1) \<Rightarrow>
                    (case makedirs E (trace w1) (path_join workdir ''audio'') of
                       Some e \<Rightarrow> (Inl e, w1)
                     | None \<Rightarrow>
                         if unset (WAV2VEC_DIR E)
                         then (Inl (Exn RuntimeError
                                 ''WAV2VEC_DIR env var is required for audio embedding.''), w1)
                         else (case custom_init E of
                                 Some e \<Rightarrow> (Inl e, w1)
                               | None \<Rightarrow>
                                   (case audio_inputs E params workdir
                                           [''prompt'' \<mapsto> prompt, ''cond_video'' \<mapsto> JStr (path vid)] w1 of
                                      (Inl e, w2) \<Rightarrow> (Inl e, w2)
                                    | (Inr input_data, w2) \<Rightarrow>
                                        (case params ''bbox'' of
                                           None \<Rightarrow> (Inr input_data, w2)
                                         | Some b \<Rightarrow> (Inr (input_data(''bbox'' \<mapsto> b)), w2))))))))"

text \<open>
  \<^verbatim>\<open>_build_pipeline\<close>: the test of the model paths is the source's; constructing the
  upstream pipeline and switching on its VRAM management is the environment's, and may
  raise.
\<close>

definition build_pipeline_checked :: "env \<Rightarrow> pydict \<Rightarrow> world \<Rightarrow> exn option \<times> world" where
  "build_pipeline_checked E params w =
     (if unset (CKPT_DIR E) \<or> unset (INFINITETALK_DIR E)
      then (Some (Exn RuntimeError
              ''Model paths CKPT_DIR and INFINITETALK_DIR must be set in environment.''), w)
      else (build_pipeline E (builds_of (trace w)) params, emit_event BuildPipeline w))"

text \<open>\<^verbatim>\<open>_run_generate\<close>: the arguments read from the parameters, then the upstream call.\<close>

definition generate_args :: "pydict \<Rightarrow> jv \<Rightarrow> gen_args" where
  "generate_args params sz =
     \<lparr>size_buckget = sz,
      motion_frame = get_or params ''motion_frame'' (JInt 9),
      frame_num = get_or params ''frame_num'' (JInt 81),
      shift = (if sz = JStr ''infinitetalk-480'' then 7 else 11),
      sampling_steps = get_or params ''sample_steps'' (JInt 40),
      text_guide_scale = get_or params ''sample_text_guide_scale'' (JFloat 5.0),
      audio_guide_scale = get_or params ''sample_audio_guide_scale'' (JFloat 4.0),
      seed = get_or params ''base_seed'' (JInt 42),
      offload_model = get_or params ''offload_model'' (JBool True),
      max_frames_num =
        (if get_or params ''mode'' (JStr ''clip'') = JStr ''clip''
         then get_or params ''frame_num'' (JInt 81)
         else get_or params ''max_frame_num'' (JInt 1000)),
      color_correction_strength = get_or params ''color_correction_strength'' (JFloat 1.0)\<rparr>"

definition run_generate :: "env \<Rightarrow> pydict \<Rightarrow> world \<Rightarrow> exn option \<times> world" where
  "run_generate E params w =
     (case params ''size'' of
        None \<Rightarrow> (Some (key_error ''size''), w)
      | Some sz \<Rightarrow>
          (generate_infinitetalk E (length (generates_of (trace w))) (generate_args params sz),
           emit_event (Generate (generate_args params sz)) w))"

text \<open>A line of the JSON logger: \<^verbatim>\<open>_emit\<close> reads the clock and writes the line.\<close>

definition emit :: "string \<Rightarrow> string \<Rightarrow> int option \<Rightarrow> world \<Rightarrow> world" where
  "emit level ev pct w =
     w\<lparr>trace := trace w @ [Log level ev pct], clock_reads := Suc (clock_reads w)\<rparr>"

record inference_result =
  video_path :: string
  video_bytes :: nat

text \<open>The end of \<^verbatim>\<open>run_inference\<close>: mux and save, then the size of the file.\<close>

definition save_video ::
  "env \<Rightarrow> pydict \<Rightarrow> string \<Rightarrow> world \<Rightarrow> (exn + inference_result) \<times> world" where
  "save_video E params workdir w =
     (let save_path_noext = path_join workdir (format_save_name E params);
          w1 = emit_event (SaveVideo save_path_noext) w
      in case save_video_ffmpeg E save_path_noext of
           Some e \<Rightarrow> (Inl e, w1)
         | None \<Rightarrow>
             (case getsize E (save_path_noext @ ''.mp4'') of
                Inl e \<Rightarrow> (Inl e, w1)
              | Inr n \<Rightarrow> (Inr \<lparr>video_path = save_path_noext @ ''.mp4'', video_bytes = n\<rparr>, w1)))"

text \<open>
  The \<^verbatim>\<open>except torch.cuda.OutOfMemoryError\<close> branch: the reduced parameters, the
  warning, a new pipeline and the second call of \<^verbatim>\<open>_run_generate\<close>, whose exceptions
  nothing catches here.
\<close>

definition reduced :: "pydict \<Rightarrow> int \<Rightarrow> pydict" where
  "reduced params steps =
     params(''size'' \<mapsto> JStr ''infinitetalk-480'', ''sample_steps'' \<mapsto> JInt (min 8 steps))"

definition oom_retry :: "env \<Rightarrow> pydict \<Rightarrow> world \<Rightarrow> exn option \<times> world" where
  "oom_retry E params w =
     (case py_int E (get_or params ''sample_steps'' (JInt 40)) of
        Inl e \<Rightarrow> (Some e, w)
      | Inr steps \<Rightarrow>
          (case build_pipeline_checked E (reduced params steps) (emit ''WARN'' ''oom_retry'' None w) of
             (Some e, w1) \<Rightarrow> (Some e, w1)
           | (None, w1) \<Rightarrow> run_generate E (reduced params steps) w1))"

definition run_inference ::
  "env \<Rightarrow> pydict \<Rightarrow> string \<Rightarrow> world \<Rightarrow> (exn + inference_result) \<times> world" where
  "run_inference E params workdir w =
     (case makedirs E (trace w) workdir of
        Some e \<Rightarrow> (Inl e, w)
      | None \<Rightarrow>
          (case prepare_inputs E params workdir w of
             (Inl e, w1) \<Rightarrow> (Inl e, w1)
           | (Inr input_data, w1) \<Rightarrow>
               (case build_pipeline_checked E params w1 of
                  (Some e, w2) \<Rightarrow> (Inl e, w2)
                | (None, w2) \<Rightarrow>
                    (case run_generate E params w2 of
                       (None, w3) \<Rightarrow> save_video E params workdir w3
                     | (Some e, w3) \<Rightarrow>
                         if is_OutOfMemoryError e then
                           (case oom_retry E params w3 of
                              (Some e2, w4) \<Rightarrow> (Inl e2, w4)
                            | (None, w4) \<Rightarrow> save_video E params workdir w4)
                         else (Inl e, w3)))))"

section \<open>worker/handler.py: the orchestrator\<close>

definition ERROR_RETRYABLE :: "(string \<times> bool) list" where
  "ERROR_RETRYABLE =
     [(''E_INPUT_VALIDATION'', False),
      (''E_DOWNLOAD_FAILED'', True),
      (''E_AUDIO_EMBEDDING'', True),
      (''E_PIPELINE_LOAD'', False),
      (''E_OOM'', False),
      (''E_FFMPEG'', True),
      (''E_GENERATION_RUNTIME'', False),
      (''E_UPLOAD'', True),
      (''E_TIMEOUT'', True)]"

record checkpoint =
  event :: string
  ts :: string

record error_details =
  code :: string
  message :: string
  retryable :: bool
  at_stage :: "string option"
  cause_class :: "string option"
  cause_message :: "string option"

record artifact =
  a_type :: string
  a_url :: "string option"
  a_path :: "string option"
  a_mime :: "string option"
  a_bytes :: "int option"
  a_base64 :: bool

record video_summary =
  v_url :: "string option"
  v_mime :: string
  v_bytes :: int

text \<open>
  The two envelopes of one job or item. Of the timings only the keys are kept, and the
  diagnostics (a traceback tail) are left out: both are measurements of the host. The job
  id is whatever the job carried; the \<^verbatim>\<open>SuccessOutput\<close> model admits a string only.
\<close>

record error_output =
  e_job_id :: jv
  error :: error_details
  e_timings :: "string list"
  e_checkpoints :: "checkpoint list"

record success_output =
  s_job_id :: string
  video :: video_summary
  s_timings :: "string list"
  params_echo :: pydict
  artifacts :: "artifact list"
  warnings :: "string list"
  s_checkpoints :: "checkpoint list"

datatype job_result = Success success_output | Error error_output

text \<open>The value under the key \<^verbatim>\<open>status\<close> of an envelope.\<close>

definition status_of :: "job_result \<Rightarrow> string" where
  "status_of r = (case r of Success s \<Rightarrow> ''success'' | Error e \<Rightarrow> ''error'')"

definition checkpoints_of :: "job_result \<Rightarrow> checkpoint list" where
  "checkpoints_of r = (case r of Success s \<Rightarrow> s_checkpoints s | Error e \<Rightarrow> e_checkpoints e)"

text \<open>
  \<^verbatim>\<open>logger.log_event\<close> normalises the level; \<^verbatim>\<open>_progress\<close> sends the update to the
  Runpod SDK when that is loaded and writes the progress line.
\<close>

definition log_event :: "string \<Rightarrow> string \<Rightarrow> int option \<Rightarrow> world \<Rightarrow> world" where
  "log_event level ev pct w =
     emit (if upper level \<in> set [''INFO'', ''WARN'', ''ERROR''] then upper level else ''INFO'')
       ev pct w"

definition progress :: "env \<Rightarrow> string \<Rightarrow> int \<Rightarrow> world \<Rightarrow> world" where
  "progress E ev pct w =
     log_event ''INFO'' ev (Some pct)
       (if sdk_progress E then emit_event (ProgressUpdate ev pct) w else w)"

text \<open>
  \<^verbatim>\<open>_seed_everything(seed)\<close>: the generators of \<^verbatim>\<open>random\<close>, numpy and torch are the
  libraries'; one call is one \<open>Seed\<close> in the trace.
\<close>

definition seed_everything :: "int \<Rightarrow> world \<Rightarrow> world" where
  "seed_everything s w = emit_event (Seed s) w"

definition maybe_keep_warm :: "env \<Rightarrow> world \<Rightarrow> world" where
  "maybe_keep_warm E w = (if keep_warm_on E then emit_event KeepWarm w else w)"

text \<open>
  The closure \<^verbatim>\<open>cp\<close> of \<^verbatim>\<open>_run_single_item\<close>, on the pair of the checkpoint list and
  the world: it stamps the checkpoint, appends it and reports the progress.
\<close>

definition cp :: "env \<Rightarrow> string \<Rightarrow> int \<Rightarrow> checkpoint list \<times> world \<Rightarrow> checkpoint list \<times> world" where
  "cp E name pct st =
     (case st of
        (checkpoints, w) \<Rightarrow>
          (checkpoints @ [\<lparr>event = name, ts = iso_now E (clock_reads w)\<rparr>],
           progress E name pct (w\<lparr>clock_reads := Suc (clock_reads w)\<rparr>)))"

definition show_int :: "int \<Rightarrow> string" where
  "show_int i = (if i < 0 then ''-'' @ show_nat (nat (- i)) else show_nat (nat i))"

definition make_artifact ::
  "string \<Rightarrow> string option \<Rightarrow> string option \<Rightarrow> string option \<Rightarrow> int option \<Rightarrow> artifact" where
  "make_artifact ty pth url mi nbytes =
     \<lparr>a_type = ty,
      a_url = (case url of Some u \<Rightarrow> if u \<noteq> [] then Some u else None | None \<Rightarrow> None),
      a_path = (case pth of Some p \<Rightarrow> if p \<noteq> [] then Some p else None | None \<Rightarrow> None),
      a_mime = (case mi of Some m \<Rightarrow> if m \<noteq> [] then Some m else None | None \<Rightarrow> None),
      a_bytes = nbytes,
      a_base64 = False\<rparr>"

text \<open>\<^verbatim>\<open>out_cfg or {}\<close> read as a dictionary; \<open>None\<close> when a truthy value has no \<^verbatim>\<open>get\<close>.\<close>

definition cfg_dict :: "jv \<Rightarrow> pydict option" where
  "cfg_dict v =
     (if \<not> truthy v then Some Map.empty
      else (case v of JDict m \<Rightarrow> Some m | _ \<Rightarrow> None))"

definition upload_artifacts_if_any ::
  "env \<Rightarrow> jv \<Rightarrow> string \<Rightarrow> string \<Rightarrow> int \<Rightarrow> world
     \<Rightarrow> (exn + artifact list \<times> string list \<times> video_summary) \<times> world" where
  "upload_artifacts_if_any E out_cfg vpath mi size_bytes w =
     (case cfg_dict out_cfg of
        None \<Rightarrow> (Inl no_get, w)
      | Some oc \<Rightarrow>
          (case oc ''video_url'' of
             Some vurl \<Rightarrow>
               (case vurl of
                  JStr u \<Rightarrow>
                    (case put E vpath u of
                       Inl e \<Rightarrow> (Inl e, emit_event (Put vpath u) w)
                     | Inr status \<Rightarrow>
                         if status div 100 \<noteq> 2
                         then (Inl (Exn RuntimeError
                                 (''Upload to presigned URL failed with status '' @ show_int status)),
                               emit_event (Put vpath u) w)
                         else (Inr ([make_artifact ''video'' None (Some u) (Some mi) (Some size_bytes)],
                                    [],
                                    \<lparr>v_url = Some u, v_mime = mi, v_bytes = size_bytes\<rparr>),
                               emit_event (Put vpath u) w))
                | _ \<Rightarrow> (Inl (not_a_string E vurl), w))
           | None \<Rightarrow>
               (let a = make_artifact ''video'' (Some vpath) None (Some mi) (Some size_bytes);
                    summary = \<lparr>v_url = None, v_mime = mi, v_bytes = size_bytes\<rparr>
                in if get_or oc ''store'' (JStr ''s3'') = JStr ''inline'' then
                     (if read_base64 E vpath
                      then (Inr ([a\<lparr>a_base64 := True\<rparr>],
                                 [''Returning inline base64 video. This is not recommended for large outputs.''],
                                 summary), w)
                      else (Inr ([a], [], summary), w))
                   else (Inr ([a],
                              [''No presigned URL provided; returning local path. Configure S3 uploads for production.''],
                              summary), w))))"

text \<open>
  \<^verbatim>\<open>build_error\<close> and \<^verbatim>\<open>_error_output\<close>: the retryable flag is looked up in the table,
  \<^verbatim>\<open>False\<close> for a code that is not there. The cause is the class name and the message of
  the exception caught. When the \<^verbatim>\<open>ErrorOutput\<close> model rejects the envelope (a job id
  that is no string), the envelope is returned as it was built.
\<close>

definition build_error ::
  "string \<Rightarrow> string \<Rightarrow> bool \<Rightarrow> string option \<Rightarrow> (string \<times> string) option \<Rightarrow> error_details" where
  "build_error c m r stage exc =
     \<lparr>code = c, message = m, retryable = r, at_stage = stage,
      cause_class = map_option fst exc, cause_message = map_option snd exc\<rparr>"

definition error_output_of ::
  "jv \<Rightarrow> string \<Rightarrow> string \<Rightarrow> string option \<Rightarrow> (string \<times> string) option
     \<Rightarrow> checkpoint list \<Rightarrow> string list \<Rightarrow> job_result" where
  "error_output_of job_id c m stage exc checkpoints timings =
     Error \<lparr>e_job_id = job_id,
            error = build_error c m
                      (case map_of ERROR_RETRYABLE c of Some r \<Rightarrow> r | None \<Rightarrow> False) stage exc,
            e_timings = timings,
            e_checkpoints = checkpoints\<rparr>"

text \<open>
  \<^verbatim>\<open>_success_output\<close>: the echoed parameters are \<^verbatim>\<open>params.get(k)\<close>, null when absent.
  The envelope passes through the \<^verbatim>\<open>SuccessOutput\<close> model, whose \<^verbatim>\<open>Artifact\<close> declares
  no field \<^verbatim>\<open>base64\<close>, so the dump has none, and whose \<^verbatim>\<open>job_id\<close> is a \<^verbatim>\<open>str\<close>: on
  any other job id \<^verbatim>\<open>model_validate\<close> raises.
\<close>

definition echoed :: "pydict \<Rightarrow> pydict" where
  "echoed params =
     (\<lambda>k. if k \<in> set [''size'', ''frame_num'', ''sample_steps'', ''motion_frame'',
                       ''use_teacache'', ''use_apg'', ''base_seed'']
          then Some (get_or params k JNull) else None)"

definition success_output_of ::
  "env \<Rightarrow> jv \<Rightarrow> pydict \<Rightarrow> video_summary \<Rightarrow> artifact list \<Rightarrow> string list \<Rightarrow> string list
     \<Rightarrow> checkpoint list \<Rightarrow> exn + job_result" where
  "success_output_of E job_id params summary arts warns timings checkpoints =
     (case job_id of
        JStr s \<Rightarrow>
          Inr (Success \<lparr>s_job_id = s,
                        video = summary,
                        s_timings = timings,
                        params_echo = echoed params,
                        artifacts = map (\<lambda>a. a\<lparr>a_base64 := False\<rparr>) arts,
                        warnings = warns,
                        s_checkpoints = checkpoints\<rparr>)
      | _ \<Rightarrow> Inl (Exn (OtherException ''ValidationError'') (str_of_output_error E job_id)))"

text \<open>
  The three \<^verbatim>\<open>except\<close> clauses of \<^verbatim>\<open>_run_single_item\<close>, in the order of the source:
  \<^verbatim>\<open>RuntimeError\<close> first, then \<^verbatim>\<open>MemoryError\<close>, then any \<^verbatim>\<open>Exception\<close> with the
  inspection of its message. The result is the code, the message and the stage.
\<close>

definition except_clauses :: "exn \<Rightarrow> string \<times> string \<times> string" where
  "except_clauses e =
     (if is_RuntimeError e then
        (if contains ''Model paths'' (msg e) then ''E_PIPELINE_LOAD'' else ''E_GENERATION_RUNTIME'',
         msg e, ''runtime'')
      else if cls e = MemoryError then (''E_OOM'', ''Out of memory.'', ''generation'')
      else
        (if contains ''ffmpeg'' (lower (msg e)) then ''E_FFMPEG''
         else if contains ''WAV2VEC_DIR'' (msg e) \<or> contains ''audio embedding'' (lower (msg e))
         then ''E_AUDIO_EMBEDDING''
         else ''E_GENERATION_RUNTIME'',
         msg e, ''generation''))"

definition caught :: "jv \<Rightarrow> exn \<Rightarrow> checkpoint list \<Rightarrow> string list \<Rightarrow> job_result" where
  "caught job_id e checkpoints timings =
     (case except_clauses e of
        (c, m, stage) \<Rightarrow>
          error_output_of job_id c m (Some stage) (Some (class_name (cls e), msg e))
            checkpoints timings)"

text \<open>
  \<^verbatim>\<open>_run_single_item\<close>. The stages before the generation only announce themselves;
  \<^verbatim>\<open>timeit_stage\<close> writes a line on entry and one on exit, \<^verbatim>\<open>stage_error\<close> when the
  body raised. \<^verbatim>\<open>_success_output\<close> is called inside the \<^verbatim>\<open>try\<close>, after the last
  checkpoint and both timings: what it raises is caught like the rest.
\<close>

definition before_generation :: "env \<Rightarrow> world \<Rightarrow> checkpoint list \<times> world" where
  "before_generation E w =
     (case cp E ''validated'' 2 ([], w) of
        (c1, w1) \<Rightarrow>
          (case cp E ''models_loading'' 15 (c1, emit ''INFO'' ''models_loading'' None w1) of
             (c2, w2) \<Rightarrow>
               (case cp E ''generation_start'' 20
                       (cp E ''preprocessing_done'' 19
                          (cp E ''models_ready'' 18
                             (c2, emit ''INFO'' ''models_loading_ok'' None w2))) of
                  (c3, w3) \<Rightarrow> (c3, emit ''INFO'' ''generation'' None w3))))"

definition after_generation ::
  "env \<Rightarrow> jv \<Rightarrow> pydict \<Rightarrow> inference_result \<Rightarrow> checkpoint list \<times> world
     \<Rightarrow> job_result \<times> world" where
  "after_generation E job_id params result st =
     (case cp E ''uploading_artifacts'' 92 (cp E ''postprocess_mux'' 90 st) of
        (c1, w1) \<Rightarrow>
          (case upload_artifacts_if_any E
                  (case params ''output_config'' of
                     None \<Rightarrow> JDict Map.empty
                   | Some v \<Rightarrow> if truthy v then v else JDict Map.empty)
                  (video_path result) ''video/mp4'' (int (video_bytes result)) w1 of
             (Inl e, w2) \<Rightarrow> (caught job_id e c1 [''generation_ms''], w2)
           | (Inr (arts, warns, summary), w2) \<Rightarrow>
               (case cp E ''completed'' 100 (c1, w2) of
                  (c3, w3) \<Rightarrow>
                    (case success_output_of E job_id params summary arts warns
                            [''generation_ms'', ''total_ms''] c3 of
                       Inr r \<Rightarrow> (r, w3)
                     | Inl e \<Rightarrow> (caught job_id e c3 [''generation_ms'', ''total_ms''], w3)))))"

definition run_single_item ::
  "env \<Rightarrow> jv \<Rightarrow> pydict \<Rightarrow> string \<Rightarrow> world \<Rightarrow> job_result \<times> world" where
  "run_single_item E job_id params workdir w =
     (case before_generation E w of
        (c, w1) \<Rightarrow>
          (case run_inference E params workdir w1 of
             (Inl e, w2) \<Rightarrow> (caught job_id e c [], emit ''ERROR'' ''stage_error'' None w2)
           | (Inr result, w2) \<Rightarrow>
               after_generation E job_id params result (c, emit ''INFO'' ''generation_ok'' None w2)))"

text \<open>
  The batch loop of \<^verbatim>\<open>run\<close>, from index \<open>idx\<close>: the item's id or \<^verbatim>\<open>item-idx\<close>, its
  working directory, created before the item runs, its run, the heartbeat. An item that
  is no dictionary has no \<^verbatim>\<open>get\<close>, an id that is truthy and no string cannot be joined
  to a path, and \<^verbatim>\<open>os.makedirs\<close> may raise; no \<^verbatim>\<open>try\<close> encloses them, so each of these
  exceptions escapes \<^verbatim>\<open>run\<close> and the results of the items before are lost with it.
\<close>

definition item_id_of :: "env \<Rightarrow> pydict \<Rightarrow> nat \<Rightarrow> exn + string" where
  "item_id_of E item idx =
     (case item ''id'' of
        None \<Rightarrow> Inr (''item-'' @ show_nat idx)
      | Some v \<Rightarrow>
          if \<not> truthy v then Inr (''item-'' @ show_nat idx)
          else (case v of JStr s \<Rightarrow> Inr s | _ \<Rightarrow> Inl (not_a_string E v)))"

fun run_items ::
  "env \<Rightarrow> jv \<Rightarrow> string \<Rightarrow> nat \<Rightarrow> jv list \<Rightarrow> world
     \<Rightarrow> (exn + (string \<times> job_result) list) \<times> world" where
  "run_items E job_id base_workdir idx [] w = (Inr [], w)"
| "run_items E job_id base_workdir idx (it # rest) w =
     (case it of
        JDict item \<Rightarrow>
          (case item_id_of E item idx of
             Inl e \<Rightarrow> (Inl e, w)
           | Inr item_id \<Rightarrow>
               (case makedirs E (trace w) (path_join base_workdir item_id) of
                  Some e \<Rightarrow> (Inl e, w)
                | None \<Rightarrow>
                    (case run_single_item E job_id item (path_join base_workdir item_id) w of
                       (res, w1) \<Rightarrow>
                         (case run_items E job_id base_workdir (Suc idx) rest
                                 (maybe_keep_warm E w1) of
                            (Inl e, w2) \<Rightarrow> (Inl e, w2)
                          | (Inr out_items, w2) \<Rightarrow> (Inr ((item_id, res) # out_items), w2)))))
      | _ \<Rightarrow> (Inl no_get, w))"

text \<open>
  What \<^verbatim>\<open>for idx, item in enumerate(batch_items)\<close> runs over: the elements of a list;
  the characters of a string and the keys of a dictionary are strings, without \<^verbatim>\<open>get\<close>;
  nothing else can be iterated.
\<close>

definition batch_iter :: "env \<Rightarrow> jv \<Rightarrow> exn + jv list" where
  "batch_iter E v =
     (case v of
        JList xs \<Rightarrow> Inr xs
      | JStr s \<Rightarrow> if s = [] then Inr [] else Inl no_get
      | JDict m \<Rightarrow> if m = Map.empty then Inr [] else Inl no_get
      | _ \<Rightarrow> Inl (not_a_string E v))"

record batch_output =
  b_job_id :: jv
  b_status :: string
  b_items :: "(string \<times> job_result) list"

datatype run_output = Single job_result | Batch batch_output

text \<open>
  The RNG is seeded when the normalized dictionary has the key \<^verbatim>\<open>base_seed\<close> with a
  non-negative \<^verbatim>\<open>int\<close>; a Python \<^verbatim>\<open>bool\<close> is an \<^verbatim>\<open>int\<close>.
\<close>

definition seed_rng :: "pydict \<Rightarrow> world \<Rightarrow> world" where
  "seed_rng normalized w =
     (case normalized ''base_seed'' of
        Some (JInt s) \<Rightarrow> if 0 \<le> s then seed_everything s w else w
      | Some (JBool b) \<Rightarrow> seed_everything (if b then 1 else 0) w
      | _ \<Rightarrow> w)"

text \<open>
  The job id, \<^verbatim>\<open>job.get("id") or f"local-{uuid.uuid4()}"\<close>: the job's \<^verbatim>\<open>id\<close> when it is
  truthy, whatever its type, and a local one otherwise.
\<close>

definition job_id_of :: "env \<Rightarrow> pydict \<Rightarrow> jv" where
  "job_id_of E job =
     (case job ''id'' of
        None \<Rightarrow> JStr (''local-'' @ uuid4 E)
      | Some v \<Rightarrow> if truthy v then v else JStr (''local-'' @ uuid4 E))"

text \<open>
  \<^verbatim>\<open>get_logger(cid, job_id)\<close> looks the correlation id up in the dictionary of loggers,
  which raises on an id that cannot be hashed, a list or a dictionary.
\<close>

definition get_logger :: "jv \<Rightarrow> exn option" where
  "get_logger cid =
     (case cid of
        JList xs \<Rightarrow>
          Some (Exn (OtherException ''TypeError'') (''unhashable type: '' @ [CHR 0x27] @ ''list'' @ [CHR 0x27]))
      | JDict m \<Rightarrow>
          Some (Exn (OtherException ''TypeError'') (''unhashable type: '' @ [CHR 0x27] @ ''dict'' @ [CHR 0x27]))
      | _ \<Rightarrow> None)"

text \<open>The job id inside an f-string: \<^verbatim>\<open>str\<close> of the value.\<close>

definition format_value :: "env \<Rightarrow> jv \<Rightarrow> string" where
  "format_value E v =
     (case v of
        JStr s \<Rightarrow> s
      | JInt n \<Rightarrow> show_int n
      | JBool b \<Rightarrow> (if b then ''True'' else ''False'')
      | _ \<Rightarrow> str_of_value E v)"

definition norm_error_class :: "norm_error \<Rightarrow> string" where
  "norm_error_class e = (case e of ValidationError errs \<Rightarrow> ''ValidationError'' | TypeError \<Rightarrow> ''TypeError'')"

text \<open>The per-job working directory, \<^verbatim>\<open>os.path.join("/tmp", f"job-{job_id}")\<close>.\<close>

definition base_workdir_of :: "env \<Rightarrow> jv \<Rightarrow> string" where
  "base_workdir_of E job_id = path_join ''/tmp'' (''job-'' @ format_value E job_id)"

text \<open>
  \<^verbatim>\<open>run(job)\<close>, the handler. An exception that escapes it is the left summand: one of
  \<^verbatim>\<open>get_logger\<close>, one of \<^verbatim>\<open>os.makedirs\<close> on the job's working directory, which is
  called after the validation and before the seeding, or one of the batch loop.
\<close>

definition run :: "env \<Rightarrow> pydict \<Rightarrow> world \<Rightarrow> (exn + run_output) \<times> world" where
  "run E job w =
     (let job_id = job_id_of E job
      in case get_logger job_id of
           Some e \<Rightarrow> (Inl e, w)
         | None \<Rightarrow>
             (let w1 = maybe_keep_warm E (log_event ''INFO'' ''received'' None w)
              in case normalize_and_validate (lax E) job (defaults_doc E) of
                   Inl e \<Rightarrow>
                     (Inr (Single (error_output_of job_id ''E_INPUT_VALIDATION''
                                     (''Invalid input: '' @ str_of_norm_error E e) (Some ''validate'')
                                     (Some (norm_error_class e, str_of_norm_error E e)) [] [])),
                      log_event ''ERROR'' ''error'' None w1)
                 | Inr normalized \<Rightarrow>
                     (let base_workdir = base_workdir_of E job_id
                      in case makedirs E (trace w1) base_workdir of
                           Some e \<Rightarrow> (Inl e, w1)
                         | None \<Rightarrow>
                             (let w2 = seed_rng normalized w1
                              in case normalized ''batch'' of
                                   Some batch_items \<Rightarrow>
                                     (case batch_iter E batch_items of
                                        Inl e \<Rightarrow> (Inl e, w2)
                                      | Inr its \<Rightarrow>
                                          (case run_items E job_id base_workdir 0 its w2 of
                                             (Inl e, w3) \<Rightarrow> (Inl e, w3)
                                           | (Inr out_items, w3) \<Rightarrow>
                                               (Inr (Batch
                                                  \<lparr>b_job_id = job_id,
                                                   b_status =
                                                     (if list_all (\<lambda>x. status_of (snd x) = ''success'')
                                                           out_items
                                                      then ''success'' else ''partial''),
                                                   b_items = out_items\<rparr>), w3)))
                                 | None \<Rightarrow>
                                     (case run_single_item E job_id normalized base_workdir w2 of
                                        (res, w3) \<Rightarrow> (Inr (Single res), w3))))))"

section \<open>ui/app.py: the polling loop\<close>

definition POLL_INIT_SEC :: real where
  "POLL_INIT_SEC = 2.0"

definition POLL_MAX_SEC :: real where
  "POLL_MAX_SEC = 6.0"

definition POLL_BACKOFF_AFTER_S :: real where
  "POLL_BACKOFF_AFTER_S = 120.0"

text \<open>The "adaptive backoff" line: the interval as a function of the elapsed time.\<close>

definition poll_interval :: "real \<Rightarrow> real" where
  "poll_interval elapsed =
     min POLL_MAX_SEC
       (POLL_INIT_SEC + (elapsed / POLL_BACKOFF_AFTER_S) * (POLL_MAX_SEC - POLL_INIT_SEC))"

text \<open>
  The client's environment: the reply to the \<open>k\<close>-th status query (or the message of the
  exception \<^verbatim>\<open>get_status\<close> raised), the \<open>k\<close>-th reading of \<^verbatim>\<open>time.time()\<close>, and
  whether Python's \<^verbatim>\<open>int\<close> reads a string as a number.
\<close>

record poll_env =
  get_status :: "nat \<Rightarrow> string + pydict"
  time_time :: "nat \<Rightarrow> real"
  int_parses :: "string \<Rightarrow> bool"

text \<open>
  How the loop ends: the status query failed, the job completed (with its output), the job
  ended in another terminal status, or an exception escaped the loop. The display updates
  and the wording of the error message are left out.
\<close>

datatype poll_result = StatusError string | Completed jv | JobEnded string | Escaped

text \<open>\<^verbatim>\<open>(status.get("status") or "").upper()\<close>; a truthy value that is no string has no \<^verbatim>\<open>upper\<close>.\<close>

definition status_upper :: "pydict \<Rightarrow> string option" where
  "status_upper status =
     (case status ''status'' of
        None \<Rightarrow> Some []
      | Some v \<Rightarrow>
          if \<not> truthy v then Some []
          else (case v of JStr s \<Rightarrow> Some (upper s) | _ \<Rightarrow> None))"

definition output_or_empty :: "pydict \<Rightarrow> jv" where
  "output_or_empty status =
     (case status ''output'' of
        None \<Rightarrow> JDict Map.empty
      | Some v \<Rightarrow> if truthy v then v else JDict Map.empty)"

text \<open>
  \<^verbatim>\<open>extract_progress\<close> is called outside any \<^verbatim>\<open>try\<close>: its
  \<^verbatim>\<open>int(status_json.get("percent") or 0)\<close> raises on a string that is no number and on a
  list or dictionary.
\<close>

definition percent_ok :: "poll_env \<Rightarrow> pydict \<Rightarrow> bool" where
  "percent_ok E status =
     (case status ''percent'' of
        None \<Rightarrow> True
      | Some v \<Rightarrow>
          if \<not> truthy v then True
          else (case v of
                  JStr s \<Rightarrow> int_parses E s
                | JList xs \<Rightarrow> False
                | JDict m \<Rightarrow> False
                | _ \<Rightarrow> True))"

text \<open>
  On a terminal status other than \<^verbatim>\<open>COMPLETED\<close> the error payload is read with
  \<^verbatim>\<open>err.get\<close> and its code is looked up in a dictionary: a truthy \<^verbatim>\<open>error\<close> that is
  no dictionary, or a code that is a list or a dictionary, makes that raise.
\<close>

definition error_escapes :: "jv \<Rightarrow> bool" where
  "error_escapes output =
     (case output of
        JDict payload \<Rightarrow>
          (case payload ''error'' of
             None \<Rightarrow> False
           | Some err \<Rightarrow>
               truthy err
               \<and> (case err of
                     JDict e \<Rightarrow>
                       (case e ''code'' of
                          None \<Rightarrow> False
                        | Some c \<Rightarrow>
                            truthy c
                            \<and> (case c of JList xs \<Rightarrow> True | JDict m \<Rightarrow> True | _ \<Rightarrow> False))
                   | _ \<Rightarrow> True))
      | _ \<Rightarrow> False)"

text \<open>
  \<^verbatim>\<open>while True\<close> with fuel: \<open>None\<close> is a loop still polling when the fuel ran out. The
  second component is the list of the intervals slept so far; \<^verbatim>\<open>time.sleep\<close> raises on a
  negative interval. Iteration \<open>k\<close> makes the \<open>k\<close>-th query and reading \<open>k + 1\<close> of the
  clock, reading \<open>0\<close> being \<^verbatim>\<open>start\<close>.
\<close>

fun poll_loop :: "poll_env \<Rightarrow> nat \<Rightarrow> nat \<Rightarrow> real list \<Rightarrow> poll_result option \<times> real list" where
  "poll_loop E 0 k slept = (None, slept)"
| "poll_loop E (Suc fuel) k slept =
     (case get_status E k of
        Inl e \<Rightarrow> (Some (StatusError (''Status error: '' @ e)), slept)
      | Inr status \<Rightarrow>
          if \<not> percent_ok E status then (Some Escaped, slept)
          else
            (let elapsed = time_time E (Suc k) - time_time E 0;
                 interval = poll_interval elapsed
             in case status_upper status of
                  None \<Rightarrow> (Some Escaped, slept)
                | Some s \<Rightarrow>
                    if s \<in> set [''COMPLETED'', ''FAILED'', ''TIMEOUT''] then
                      (if s = ''COMPLETED'' then (Some (Completed (output_or_empty status)), slept)
                       else if error_escapes (output_or_empty status) then (Some Escaped, slept)
                       else (Some (JobEnded s), slept))
                    else if interval < 0 then (Some Escaped, slept)
                    else poll_loop E fuel (Suc k) (slept @ [interval])))"

definition poll_status_stream :: "poll_env \<Rightarrow> nat \<Rightarrow> poll_result option \<times> real list" where
  "poll_status_stream E fuel = poll_loop E fuel 0 []"

text \<open>A client for evaluating examples: two replies in progress, then completion, a minute apart.\<close>

definition example_poll_env :: poll_env where
  "example_poll_env =
     \<lparr>get_status = (\<lambda>k. if k < 2 then Inr [''status'' \<mapsto> JStr ''IN_PROGRESS'']
                         else Inr [''status'' \<mapsto> JStr ''completed'']),
      time_time = (\<lambda>k. 60 * real k),
      int_parses = (\<lambda>s. False)\<rparr>"

text \<open>
  A client whose wall clock is set back by half a minute after the loop has read
  \<^verbatim>\<open>start\<close>.
\<close>

definition setback_poll_env :: poll_env where
  "setback_poll_env = example_poll_env\<lparr>time_time := (\<lambda>k. if k = 0 then 100 else 70)\<rparr>"

text \<open>
  An environment for evaluating examples: every collaborator succeeds, no local file and
  no base64 payload exists, and all model paths are set. The variants below change one
  collaborator each.
\<close>

definition example_env :: env where
  "example_env =
     \<lparr>lax = strict_json,
      defaults_doc = example_defaults,
      uuid4 = ''0000'',
      iso_now = (\<lambda>n. ''2025-01-01T00:00:00+00:00''),
      sdk_progress = False,
      keep_warm_on = False,
      str_of_norm_error = (\<lambda>e. ''validation error''),
      path_exists = (\<lambda>p. False),
      getsize = (\<lambda>p. Inr 1000),
      b64_valid = (\<lambda>s. False),
      b64_to_file = (\<lambda>d p. Inr 0),
      url_scheme = (\<lambda>s. if prefix ''https:'' s then ''https''
                        else if prefix ''http:'' s then ''http'' else ''''),
      url_basename = (\<lambda>s. ''''),
      splitext_ext = (\<lambda>s. ''''),
      http_get = (\<lambda>k u. Inr \<lparr>content_type = None, total = 10, hexdigest = ''''\<rparr>),
      WAV2VEC_DIR = Some ''/models/wav2vec'',
      CKPT_DIR = Some ''/models/ckpt'',
      INFINITETALK_DIR = Some ''/models/infinitetalk'',
      custom_init = None,
      audio_embed = (\<lambda>ps. None),
      build_pipeline = (\<lambda>k p. None),
      generate_infinitetalk = (\<lambda>k a. None),
      py_int = (\<lambda>v. case v of JInt n \<Rightarrow> Inr n | _ \<Rightarrow> Inl (Exn ValueError ''invalid literal for int()'')),
      format_save_name = (\<lambda>p. ''infitalk''),
      save_video_ffmpeg = (\<lambda>p. None),
      put = (\<lambda>p u. Inr 200),
      not_a_string = (\<lambda>v. Exn (OtherException ''TypeError'') ''expected str''),
      read_base64 = (\<lambda>p. True),
      makedirs = (\<lambda>evs p. None),
      str_of_value = (\<lambda>v. ''None''),
      str_of_output_error = (\<lambda>v. ''1 validation error for SuccessOutput'')\<rparr>"

definition world0 :: world where
  "world0 = \<lparr>trace = [], clock_reads = 0\<rparr>"

text \<open>A server that fails twice and then answers, and one that never answers.\<close>

definition flaky_env :: env where
  "flaky_env =
     example_env\<lparr>http_get :=
       (\<lambda>k u. if k < 2 then Inl (Exn OSError ''connection reset'')
              else Inr \<lparr>content_type = None, total = 10, hexdigest = ''''\<rparr>)\<rparr>"

definition dead_env :: env where
  "dead_env = example_env\<lparr>http_get := (\<lambda>k u. Inl (Exn OSError ''connection refused''))\<rparr>"

text \<open>A job around a payload that names its size and its seed.\<close>

definition example_params :: pydict where
  "example_params =
     example_payload(''size'' \<mapsto> JStr ''infinitetalk-720'', ''base_seed'' \<mapsto> JInt 7)"


text \<open>
  Variants of the environment: the generation runs out of GPU memory at every call; the
  variable \<^verbatim>\<open>WAV2VEC_DIR\<close> is not set; the first generation call fails and the later ones
  succeed. And a batch of two items.
\<close>

definition oom_env :: env where
  "oom_env =
     example_env\<lparr>generate_infinitetalk := (\<lambda>k a. Some (Exn OutOfMemoryError ''CUDA out of memory.''))\<rparr>"

definition no_wav2vec_env :: env where
  "no_wav2vec_env = example_env\<lparr>WAV2VEC_DIR := None\<rparr>"

definition first_fails_env :: env where
  "first_fails_env =
     example_env\<lparr>generate_infinitetalk :=
       (\<lambda>k a. if k = 0 then Some (Exn ValueError ''shape mismatch'') else None)\<rparr>"

definition example_batch_job :: pydict where
  "example_batch_job =
     [''id'' \<mapsto> JStr ''job-2'',
      ''input'' \<mapsto>
        JDict [''batch'' \<mapsto>
                 JList [JDict example_params, JDict (example_params(''id'' \<mapsto> JStr ''second''))]]]"


definition example_batch_normalized :: pydict where
  "example_batch_normalized =
     [''batch'' \<mapsto>
        JList [JDict (([''sample_steps'' \<mapsto> JInt 8] ++ example_params)
                        (''output_config'' \<mapsto> JDict [''store'' \<mapsto> JStr ''inline''])),
               JDict (([''sample_steps'' \<mapsto> JInt 8] ++ example_params(''id'' \<mapsto> JStr ''second''))
                        (''output_config'' \<mapsto> JDict [''store'' \<mapsto> JStr ''inline'']))]]"

text \<open>
  A batch of three items whose second id holds a NUL character, which the schema admits as
  it admits any string, on a worker whose \<^verbatim>\<open>os.makedirs\<close> refuses a path with a NUL in
  it, as Python's does with a \<^verbatim>\<open>ValueError\<close>.
\<close>

definition nul_env :: env where
  "nul_env =
     example_env\<lparr>makedirs :=
       (\<lambda>evs p. if CHR 0x00 \<in> set p then Some (Exn ValueError ''embedded null byte'')
                else None)\<rparr>"

definition nul_batch_job :: pydict where
  "nul_batch_job =
     [''id'' \<mapsto> JStr ''job-4'',
      ''input'' \<mapsto>
        JDict [''batch'' \<mapsto>
                 JList [JDict example_params,
                        JDict (example_params(''id'' \<mapsto> JStr [CHR ''a'', CHR 0x00])),
                        JDict (example_params(''id'' \<mapsto> JStr ''third''))]]]"

definition nul_batch_normalized :: pydict where
  "nul_batch_normalized =
     [''batch'' \<mapsto>
        JList [JDict (([''sample_steps'' \<mapsto> JInt 8] ++ example_params)
                        (''output_config'' \<mapsto> JDict [''store'' \<mapsto> JStr ''inline''])),
               JDict (([''sample_steps'' \<mapsto> JInt 8]
                         ++ example_params(''id'' \<mapsto> JStr [CHR ''a'', CHR 0x00]))
                        (''output_config'' \<mapsto> JDict [''store'' \<mapsto> JStr ''inline''])),
               JDict (([''sample_steps'' \<mapsto> JInt 8] ++ example_params(''id'' \<mapsto> JStr ''third''))
                        (''output_config'' \<mapsto> JDict [''store'' \<mapsto> JStr ''inline'']))]]"





text \<open>
  \<open>extends w w' ps ss\<close>: the world \<open>w'\<close> continues the trace of \<open>w\<close>, and what was added
  holds the progress lines \<open>ps\<close> and the seed calls \<open>ss\<close>, in this order.
\<close>

definition extends :: "world \<Rightarrow> world \<Rightarrow> (string \<times> int) list \<Rightarrow> int list \<Rightarrow> bool" where
  "extends w w' ps ss =
     (\<exists>evs. trace w' = trace w @ evs \<and> progress_of evs = ps \<and> seeds_of evs = ss)"

definition error_of :: "job_result \<Rightarrow> error_details option" where
  "error_of r = (case r of Success s \<Rightarrow> None | Error e \<Rightarrow> Some (error e))"

section \<open>Properties of the schema\<close>

lemma required_upd_other: "k \<noteq> k' \<Longrightarrow> required ok (d(k' := y)) k = required ok d k"
  by (simp add: required_def)

lemma defaulted_upd_other: "k \<noteq> k' \<Longrightarrow> defaulted ok (d(k' := y)) k = defaulted ok d k"
  by (simp add: defaulted_def)

lemma field_none_upd_other: "k \<noteq> k' \<Longrightarrow> field_none (d(k' := y)) k = field_none d k"
  by (simp add: field_none_def)

lemma bbox_field_upd_frame_num: "bbox_field P (d(''frame_num'' := y)) = bbox_field P d"
  by (simp add: bbox_field_def)

lemma validate_audio_refs_upd_frame_num:
  "validate_audio_refs (d(''frame_num'' := y)) = validate_audio_refs d"
  by (simp add: validate_audio_refs_def field_none_upd_other)

lemma frame_num_field_absent: "frame_num_field P (d(''frame_num'' := None)) = []"
  by (simp add: frame_num_field_def)

lemma generation_fields_frame_num:
  "generation_fields P (d(''frame_num'' := y)) = [] \<longleftrightarrow>
     frame_num_field P (d(''frame_num'' := y)) = [] \<and> generation_fields P (d(''frame_num'' := None)) = []"
  by (simp add: generation_fields_def defaulted_upd_other frame_num_field_absent) blast

lemma frame_num_field_present:
  "int_of P x = Some v \<Longrightarrow>
     frame_num_field P (d(''frame_num'' \<mapsto> x)) = [] \<longleftrightarrow> 0 < v \<and> (v - 1) mod 4 = 0"
  by (auto simp add: frame_num_field_def validate_frame_num_4n_plus_1_def)

lemma SingleInput_fields_frame_num:
  "SingleInput_fields P (d(''frame_num'' := y)) = [] \<longleftrightarrow>
     frame_num_field P (d(''frame_num'' := y)) = [] \<and> SingleInput_fields P (d(''frame_num'' := None)) = []"
  using generation_fields_frame_num [of P d y]
  by (simp add: SingleInput_fields_def defaulted_upd_other required_upd_other
      bbox_field_upd_frame_num) blast

lemma BatchInput_fields_frame_num:
  "BatchInput_fields P (d(''frame_num'' := y)) = [] \<longleftrightarrow>
     frame_num_field P (d(''frame_num'' := y)) = [] \<and> BatchInput_fields P (d(''frame_num'' := None)) = []"
  using generation_fields_frame_num [of P d y]
  by (simp add: BatchInput_fields_def defaulted_upd_other required_upd_other) blast

text \<open>
  C2. A payload whose \<^verbatim>\<open>frame_num\<close> pydantic reads as the integer \<open>v\<close> is accepted, by
  \<^verbatim>\<open>SingleInput\<close> and by \<^verbatim>\<open>BatchInput\<close> alike, if and only if \<open>v > 0\<close> and
  \<open>(v - 1) mod 4 = 0\<close> and the rest of the payload is acceptable.
\<close>

theorem frame_num_accepted_iff:
  assumes "int_of P x = Some v"
  shows "(SingleInput_model_validate P (d(''frame_num'' \<mapsto> x)) = Inr ()
            \<longleftrightarrow> (0 < v \<and> (v - 1) mod 4 = 0)
                \<and> SingleInput_model_validate P (d(''frame_num'' := None)) = Inr ())
       \<and> (BatchInput_model_validate P (JDict (d(''frame_num'' \<mapsto> x))) = Inr ()
            \<longleftrightarrow> (0 < v \<and> (v - 1) mod 4 = 0)
                \<and> BatchInput_model_validate P (JDict (d(''frame_num'' := None))) = Inr ())"
proof -
  have f: "frame_num_field P (d(''frame_num'' \<mapsto> x)) = [] \<longleftrightarrow> 0 < v \<and> (v - 1) mod 4 = 0"
    using assms by (rule frame_num_field_present)
  have s: "SingleInput_model_validate P (d(''frame_num'' \<mapsto> x)) = Inr ()
            \<longleftrightarrow> (0 < v \<and> (v - 1) mod 4 = 0)
                \<and> SingleInput_model_validate P (d(''frame_num'' := None)) = Inr ()"
    using f SingleInput_fields_frame_num [of P d "Some x"]
    by (auto simp add: SingleInput_model_validate_def validate_audio_refs_upd_frame_num
        split: sum.splits)
  have b: "BatchInput_model_validate P (JDict (d(''frame_num'' \<mapsto> x))) = Inr ()
            \<longleftrightarrow> (0 < v \<and> (v - 1) mod 4 = 0)
                \<and> BatchInput_model_validate P (JDict (d(''frame_num'' := None))) = Inr ()"
    using f BatchInput_fields_frame_num [of P d "Some x"]
    by (auto simp add: BatchInput_model_validate_def validate_audio_refs_upd_frame_num
        split: sum.splits)
  from s b show ?thesis by blast
qed

lemma example_payload_valid:
  "SingleInput_model_validate strict_json (example_payload(''frame_num'' := None)) = Inr ()"
  by (simp add: SingleInput_model_validate_def SingleInput_fields_def generation_fields_def
      required_def defaulted_def bbox_field_def frame_num_field_def validate_audio_refs_def
      field_none_def example_payload_def str_min1_def is_str_def nullable_def CondAudio_ok_def)

theorem frame_num_accepted_iff_witness:
  "int_of strict_json (JInt 81) = Some 81
   \<and> SingleInput_model_validate strict_json (example_payload(''frame_num'' \<mapsto> JInt 81)) = Inr ()
   \<and> SingleInput_model_validate strict_json (example_payload(''frame_num'' \<mapsto> JInt 80)) \<noteq> Inr ()
   \<and> SingleInput_model_validate strict_json (example_payload(''frame_num'' \<mapsto> JInt 0)) \<noteq> Inr ()
   \<and> SingleInput_model_validate strict_json (example_payload(''frame_num'' \<mapsto> JInt (- 5))) \<noteq> Inr ()"
  using frame_num_accepted_iff [of strict_json "JInt 81" 81 example_payload]
    frame_num_accepted_iff [of strict_json "JInt 80" 80 example_payload]
    frame_num_accepted_iff [of strict_json "JInt 0" 0 example_payload]
    frame_num_accepted_iff [of strict_json "JInt (- 5)" "- 5" example_payload]
    example_payload_valid
  by (simp add: strict_json_def)

lemma apply_defaults_dom:
  assumes "apply_defaults_to_single single defaults = Inr out"
  shows "\<exists>g. generation_of defaults = Some g
           \<and> dom out = dom single \<union> dom g
                \<union> (if ''output_config'' \<notin> dom single \<union> dom g \<and> ''output'' \<in> dom defaults
                    then {''output_config''} else {})
           \<and> (\<forall>k \<in> dom single. out k = single k)
           \<and> (\<forall>k \<in> dom g - dom single. out k = g k)
           \<and> (''output_config'' \<notin> dom single \<union> dom g \<longrightarrow> out ''output_config'' = defaults ''output'')"
proof (cases "generation_of defaults")
  case None
  with assms show ?thesis by (simp add: apply_defaults_to_single_def)
next
  case (Some g)
  show ?thesis
  proof (cases "''output_config'' \<notin> dom (g ++ single) \<and> ''output'' \<in> dom defaults")
    case True
    with Some assms have out: "out = (g ++ single)(''output_config'' := defaults ''output'')"
      by (simp add: apply_defaults_to_single_def Let_def)
    from True obtain v where v: "defaults ''output'' = Some v" by auto
    from True have notin: "''output_config'' \<notin> dom single" "''output_config'' \<notin> dom g" by auto
    have d: "dom out = dom single \<union> dom g \<union> {''output_config''}"
      using out v by auto
    have s: "\<forall>k \<in> dom single. out k = single k"
      using out notin by (auto simp add: map_add_def split: option.splits)
    have gg: "\<forall>k \<in> dom g - dom single. out k = g k"
      using out notin by (auto simp add: map_add_def split: option.splits)
    show ?thesis using Some d s gg True out notin by auto
  next
    case False
    with Some assms have out: "out = g ++ single"
      by (auto simp add: apply_defaults_to_single_def Let_def split: if_splits)
    have d: "dom out = dom single \<union> dom g" using out by auto
    have s: "\<forall>k \<in> dom single. out k = single k"
      using out by (auto simp add: map_add_def split: option.splits)
    have gg: "\<forall>k \<in> dom g - dom single. out k = g k"
      using out by (auto simp add: map_add_def split: option.splits)
    from False have c: "''output_config'' \<notin> dom single \<union> dom g \<longrightarrow> ''output'' \<notin> dom defaults"
      by auto
    show ?thesis using Some d s gg c out
      by (auto simp add: map_add_def domIff split: option.splits)
  qed
qed

lemma envelope_payload:
  "EnvelopeInput_model_validate P envelope = Inr payload \<Longrightarrow> envelope ''input'' = Some (JDict payload)"
  by (auto simp add: EnvelopeInput_model_validate_def split: if_splits option.splits jv.splits sum.splits)

lemma normalize_single:
  assumes "normalize_and_validate P envelope defaults = Inr out"
      and "envelope ''input'' = Some (JDict payload)"
      and "''batch'' \<notin> dom payload"
  shows "apply_defaults_to_single payload defaults = Inr out \<and> SingleInput_model_validate P out = Inr ()"
proof -
  from assms(1) obtain p where p: "EnvelopeInput_model_validate P envelope = Inr p"
    by (auto simp add: normalize_and_validate_def split: sum.splits)
  with assms(2) have "p = payload" by (auto dest: envelope_payload)
  with p assms(1,3) show ?thesis
    by (auto simp add: normalize_and_validate_def domIff split: sum.splits)
qed

text \<open>
  C10. For an accepted single envelope the normalized payload has exactly the keys of the
  caller's payload and of the \<^verbatim>\<open>generation\<close> sub-tree of the defaults, plus
  \<^verbatim>\<open>output_config\<close> from the defaults' \<^verbatim>\<open>output\<close> when neither supplied one; the caller's
  values win, and no other key (for instance a schema default such as \<^verbatim>\<open>frame_num\<close> or
  \<^verbatim>\<open>base_seed\<close>) appears.
\<close>

theorem normalized_single_fields:
  assumes "normalize_and_validate P envelope defaults = Inr out"
      and "envelope ''input'' = Some (JDict payload)"
      and "''batch'' \<notin> dom payload"
  shows "\<exists>g. generation_of defaults = Some g
           \<and> dom out = dom payload \<union> dom g
                \<union> (if ''output_config'' \<notin> dom payload \<union> dom g \<and> ''output'' \<in> dom defaults
                    then {''output_config''} else {})
           \<and> (\<forall>k \<in> dom payload. out k = payload k)
           \<and> (\<forall>k \<in> dom g - dom payload. out k = g k)
           \<and> (''output_config'' \<notin> dom payload \<union> dom g \<longrightarrow> out ''output_config'' = defaults ''output'')"
  using normalize_single [OF assms] by (intro apply_defaults_dom) simp

lemma example_normalize:
  "normalize_and_validate strict_json example_envelope example_defaults = Inr example_normalized"
  by (simp add: normalize_and_validate_def EnvelopeInput_model_validate_def example_envelope_def
      check_single_or_batch_def example_defaults_def apply_defaults_to_single_def generation_of_def
      example_normalized_def Let_def is_dict_def
      SingleInput_model_validate_def SingleInput_fields_def generation_fields_def
      required_def defaulted_def bbox_field_def frame_num_field_def validate_audio_refs_def
      field_none_def example_payload_def str_min1_def is_str_def nullable_def CondAudio_ok_def
      OutputConfig_ok_def literal_def STORE_ENUM_def strict_json_def is_int_def)

theorem normalized_single_fields_witness:
  "normalize_and_validate strict_json example_envelope example_defaults = Inr example_normalized
   \<and> example_envelope ''input'' = Some (JDict example_payload)
   \<and> ''batch'' \<notin> dom example_payload
   \<and> dom example_normalized
       = {''prompt'', ''cond_video'', ''cond_audio'', ''sample_steps'', ''output_config''}
   \<and> example_normalized ''frame_num'' = None
   \<and> example_normalized ''base_seed'' = None"
proof -
  have h1: "normalize_and_validate strict_json example_envelope example_defaults = Inr example_normalized"
    by (rule example_normalize)
  have h2: "example_envelope ''input'' = Some (JDict example_payload)"
    by (simp add: example_envelope_def)
  have h3: "''batch'' \<notin> dom example_payload"
    by (simp add: example_payload_def)
  have g: "generation_of example_defaults = Some [''sample_steps'' \<mapsto> JInt 8]"
    by (simp add: generation_of_def example_defaults_def)
  have d: "dom example_payload = {''prompt'', ''cond_video'', ''cond_audio''}"
    by (auto simp add: example_payload_def)
  from normalized_single_fields [OF h1 h2 h3] g d
  have dm: "dom example_normalized
       = {''prompt'', ''cond_video'', ''cond_audio'', ''sample_steps'', ''output_config''}"
    by (auto simp add: example_defaults_def)
  then have "''frame_num'' \<notin> dom example_normalized" "''base_seed'' \<notin> dom example_normalized"
    by simp_all
  then have n: "example_normalized ''frame_num'' = None" "example_normalized ''base_seed'' = None"
    by (simp_all only: domIff not_not)
  from h1 h2 h3 dm n show ?thesis by blast
qed

lemma apply_defaults_idem:
  assumes "apply_defaults_to_single single defaults = Inr m"
  shows "apply_defaults_to_single m defaults = Inr m"
proof (cases "generation_of defaults")
  case None
  with assms show ?thesis by (simp add: apply_defaults_to_single_def)
next
  case (Some g)
  have absorb: "g ++ (g ++ single) = g ++ single"
    by (rule ext) (simp add: map_add_def split: option.splits)
  show ?thesis
  proof (cases "''output_config'' \<notin> dom (g ++ single) \<and> ''output'' \<in> dom defaults")
    case True
    then obtain v where v: "defaults ''output'' = Some v" by auto
    with True Some assms have m: "m = (g ++ single)(''output_config'' \<mapsto> v)"
      by (simp add: apply_defaults_to_single_def Let_def)
    have "g ++ m = m"
      unfolding m by (rule ext) (simp add: map_add_def split: option.splits)
    moreover have "''output_config'' \<in> dom m" unfolding m by simp
    ultimately show ?thesis using Some
      by (simp add: apply_defaults_to_single_def Let_def)
  next
    case False
    with Some assms have m: "m = g ++ single"
      by (auto simp add: apply_defaults_to_single_def Let_def split: if_splits)
    with absorb have "g ++ m = m" by simp
    with False Some m show ?thesis
      by (auto simp add: apply_defaults_to_single_def Let_def)
  qed
qed

lemma normalize_items_again:
  "normalize_items P defaults its = Inr ns \<Longrightarrow>
     length ns = length its
     \<and> validate_items P (map JDict ns) = Inr ()
     \<and> normalize_items P defaults (map JDict ns) = Inr ns"
proof (induction its arbitrary: ns)
  case Nil
  then show ?case by simp
next
  case (Cons it its)
  from Cons.prems obtain single merged rest where
    it: "it = JDict single" and
    ad: "apply_defaults_to_single single defaults = Inr merged" and
    ok: "BatchInput_model_validate P (JDict merged) = Inr ()" and
    rest: "normalize_items P defaults its = Inr rest" and
    ns: "ns = merged # rest"
    by (auto split: jv.splits sum.splits)
  from Cons.IH [OF rest] apply_defaults_idem [OF ad] ok ns show ?case by simp
qed

lemma check_batch_nonempty:
  assumes "check_single_or_batch P payload = Inr ()" and "payload ''batch'' = Some (JList its)"
  shows "its \<noteq> []"
  using assms by (auto simp add: check_single_or_batch_def split: if_splits)

text \<open>
  C9, as amended. \<^verbatim>\<open>normalize_and_validate\<close> takes an envelope and returns the payload
  without its envelope, so its output is not an input of itself. Wrapped again as
  \<^verbatim>\<open>{"input": out}\<close>, the output of a successful call normalizes to itself under the same
  defaults, for a batch always and for a single payload when the defaults put no key
  \<^verbatim>\<open>batch\<close> under \<^verbatim>\<open>generation\<close>.
\<close>

theorem normalize_rewrapped_idempotent:
  assumes n: "normalize_and_validate P envelope defaults = Inr out"
      and i: "envelope ''input'' = Some (JDict payload)"
      and b: "''batch'' \<in> dom payload \<or> no_batch_default defaults"
  shows "normalize_and_validate P [''input'' \<mapsto> JDict out] defaults = Inr out"
proof -
  from n obtain p where p: "EnvelopeInput_model_validate P envelope = Inr p"
    by (auto simp add: normalize_and_validate_def split: sum.splits)
  with i have pp: "p = payload" by (auto dest: envelope_payload)
  from p pp have chk: "check_single_or_batch P payload = Inr ()"
    by (auto simp add: EnvelopeInput_model_validate_def i split: if_splits sum.splits)
  have env: "\<And>r. check_single_or_batch P out = Inr r \<Longrightarrow>
               EnvelopeInput_model_validate P [''input'' \<mapsto> JDict out] = Inr out"
    by (simp add: EnvelopeInput_model_validate_def required_def defaulted_def is_dict_def)
  show ?thesis
  proof (cases "payload ''batch''")
    case None
    then have nb: "''batch'' \<notin> dom payload" by (simp add: domIff)
    from normalize_single [OF n i nb]
    have ad: "apply_defaults_to_single payload defaults = Inr out"
      and ok: "SingleInput_model_validate P out = Inr ()" by simp_all
    from b nb have nbd: "no_batch_default defaults" by simp
    from apply_defaults_dom [OF ad] obtain g where
      g: "generation_of defaults = Some g" and
      d: "dom out = dom payload \<union> dom g
           \<union> (if ''output_config'' \<notin> dom payload \<union> dom g \<and> ''output'' \<in> dom defaults
               then {''output_config''} else {})"
      by blast
    from nbd g have "''batch'' \<notin> dom g" by (simp add: no_batch_default_def domIff)
    with d nb have "''batch'' \<notin> dom out" by (auto split: if_splits)
    then have ob: "out ''batch'' = None" by (simp add: domIff)
    with ok have "check_single_or_batch P out = Inr ()"
      by (simp add: check_single_or_batch_def)
    from env [OF this] ob apply_defaults_idem [OF ad] ok show ?thesis
      by (simp add: normalize_and_validate_def)
  next
    case (Some items)
    with p pp n obtain its ns where
      its: "items = JList its" and
      ni: "normalize_items P defaults its = Inr ns"
      by (auto simp add: normalize_and_validate_def split: sum.splits jv.splits)
    let ?result = "[''batch'' \<mapsto> JList (map JDict ns)]"
    from Some its chk have ne: "its \<noteq> []" by (auto dest: check_batch_nonempty)
    from normalize_items_again [OF ni] have
      len: "length ns = length its" and
      vi: "validate_items P (map JDict ns) = Inr ()" and
      again: "normalize_items P defaults (map JDict ns) = Inr ns" by simp_all
    from len ne have nne: "ns \<noteq> []" by auto
    have out: "out = (if ''output_config'' \<in> dom payload
                      then ?result(''output_config'' := payload ''output_config'') else ?result)"
      using n p pp Some its ni by (simp add: normalize_and_validate_def Let_def split: if_splits)
    have ob: "out ''batch'' = Some (JList (map JDict ns))"
      unfolding out by simp
    have oc: "''output_config'' \<in> dom out \<longleftrightarrow> ''output_config'' \<in> dom payload"
      unfolding out by (auto split: if_splits)
    have ocv: "''output_config'' \<in> dom payload \<Longrightarrow>
                 ?result(''output_config'' := out ''output_config'') = out"
      unfolding out by (rule ext) simp
    have nocv: "''output_config'' \<notin> dom payload \<Longrightarrow> ?result = out"
      unfolding out by simp
    from ob vi nne have "check_single_or_batch P out = Inr ()"
      by (simp add: check_single_or_batch_def)
    from env [OF this] ob again oc ocv nocv show ?thesis
      by (simp add: normalize_and_validate_def Let_def)
  qed
qed

text \<open>
  C9 as stated fails: the normalized output of an accepted envelope has no key
  \<^verbatim>\<open>input\<close>, and a second call on it is rejected.
\<close>

theorem normalize_twice_counterexample:
  "normalize_and_validate strict_json example_envelope example_defaults = Inr example_normalized
   \<and> normalize_and_validate strict_json example_normalized example_defaults
       = Inl (ValidationError [FieldError ''input''])"
proof -
  have "example_normalized ''input'' = None" "example_normalized ''policy'' = None"
    by (simp_all add: example_normalized_def example_payload_def map_add_def)
  then have "normalize_and_validate strict_json example_normalized example_defaults
       = Inl (ValidationError [FieldError ''input''])"
    by (simp add: normalize_and_validate_def EnvelopeInput_model_validate_def required_def
        defaulted_def)
  with example_normalize show ?thesis by simp
qed

theorem normalize_rewrapped_idempotent_witness:
  "normalize_and_validate strict_json example_envelope example_defaults = Inr example_normalized
   \<and> example_envelope ''input'' = Some (JDict example_payload)
   \<and> no_batch_default example_defaults
   \<and> normalize_and_validate strict_json [''input'' \<mapsto> JDict example_normalized] example_defaults
       = Inr example_normalized"
proof -
  have h1: "normalize_and_validate strict_json example_envelope example_defaults = Inr example_normalized"
    by (rule example_normalize)
  have h2: "example_envelope ''input'' = Some (JDict example_payload)"
    by (simp add: example_envelope_def)
  have h3: "no_batch_default example_defaults"
    by (simp add: no_batch_default_def generation_of_def example_defaults_def)
  from normalize_rewrapped_idempotent [OF h1 h2 disjI2 [OF h3]] h1 h2 h3 show ?thesis by blast
qed

section \<open>Properties of the transfer layer\<close>

lemma gets_of_append: "gets_of (xs @ ys) = gets_of xs @ gets_of ys"
  by (induction xs rule: gets_of.induct) simp_all

lemma sleeps_of_append: "sleeps_of (xs @ ys) = sleeps_of xs @ sleeps_of ys"
  by (induction xs rule: sleeps_of.induct) simp_all

lemma download_loop_spec:
  assumes "a \<le> MAX_RETRIES"
      and "download_loop E url wd fn cs [a..<Suc MAX_RETRIES] lerr w = (r, w')"
  shows "\<exists>n evs. a \<le> n \<and> n \<le> MAX_RETRIES \<and> trace w' = trace w @ evs
           \<and> gets_of evs = replicate (Suc n - a) url
           \<and> sleeps_of evs = map (\<lambda>j. BACKOFF_SEC * real j) [a..<n]
           \<and> (\<forall>j. a \<le> j \<and> j < n \<longrightarrow>
                  isl (attempt_result E url wd fn cs (length (gets_of (trace w)) + (j - a))))
           \<and> r = attempt_result E url wd fn cs (length (gets_of (trace w)) + (n - a))
           \<and> (isl r \<longrightarrow> n = MAX_RETRIES)"
  using assms
proof (induction "MAX_RETRIES - a" arbitrary: a lerr w)
  case 0
  then have a: "a = MAX_RETRIES" by simp
  have l: "[a..<Suc MAX_RETRIES] = [a]" using a by simp
  from "0.prems"(2) have r: "r = attempt_result E url wd fn cs (length (gets_of (trace w)))"
    and w': "w' = emit_event (HttpGet url) w"
    unfolding l by (auto simp add: download_attempt_def a split: sum.splits)
  show ?case
    apply (rule exI [of _ a], rule exI [of _ "[HttpGet url]"])
    using r w' a by (auto simp add: emit_event_def)
next
  case (Suc k)
  then have lt: "a < MAX_RETRIES" by simp
  have l: "[a..<Suc MAX_RETRIES] = a # [Suc a..<Suc MAX_RETRIES]"
    using lt by (simp add: upt_conv_Cons)
  let ?g = "length (gets_of (trace w))"
  let ?w1 = "emit_event (HttpGet url) w"
  show ?case
  proof (cases "attempt_result E url wd fn cs ?g")
    case (Inr res)
    with Suc.prems(2) have r: "r = attempt_result E url wd fn cs ?g" and w': "w' = ?w1"
      unfolding l by (auto simp add: download_attempt_def)
    show ?thesis
      apply (rule exI [of _ a], rule exI [of _ "[HttpGet url]"])
      using r w' lt Inr by (auto simp add: emit_event_def)
  next
    case (Inl e)
    let ?w2 = "emit_event (Sleep (BACKOFF_SEC * real a)) ?w1"
    from Inl Suc.prems(2) lt have rec:
      "download_loop E url wd fn cs [Suc a..<Suc MAX_RETRIES] (Some e) ?w2 = (r, w')"
      unfolding l by (auto simp add: download_attempt_def)
    have k: "k = MAX_RETRIES - Suc a" using Suc.hyps(2) by simp
    have le: "Suc a \<le> MAX_RETRIES" using lt by simp
    have g2: "length (gets_of (trace ?w2)) = Suc ?g"
      by (simp add: emit_event_def gets_of_append)
    from Suc.hyps(1) [OF k le rec] obtain n evs where
      n: "Suc a \<le> n" "n \<le> MAX_RETRIES" and
      tr: "trace w' = trace ?w2 @ evs" and
      gs: "gets_of evs = replicate (Suc n - Suc a) url" and
      sl: "sleeps_of evs = map (\<lambda>j. BACKOFF_SEC * real j) [Suc a..<n]" and
      fl: "\<forall>j. Suc a \<le> j \<and> j < n \<longrightarrow>
             isl (attempt_result E url wd fn cs (Suc ?g + (j - Suc a)))" and
      r: "r = attempt_result E url wd fn cs (Suc ?g + (n - Suc a))" and
      fin: "isl r \<longrightarrow> n = MAX_RETRIES"
      unfolding g2 by blast
    let ?evs = "[HttpGet url, Sleep (BACKOFF_SEC * real a)] @ evs"
    have t: "trace w' = trace w @ ?evs" using tr by (simp add: emit_event_def)
    have g: "gets_of ?evs = replicate (Suc n - a) url"
      using gs n by (simp add: Suc_diff_le replicate_Suc [symmetric] del: replicate_Suc)
    have s: "sleeps_of ?evs = map (\<lambda>j. BACKOFF_SEC * real j) [a..<n]"
      using sl n by (simp add: upt_conv_Cons)
    have f: "\<forall>j. a \<le> j \<and> j < n \<longrightarrow> isl (attempt_result E url wd fn cs (?g + (j - a)))"
    proof (intro allI impI)
      fix j assume j: "a \<le> j \<and> j < n"
      show "isl (attempt_result E url wd fn cs (?g + (j - a)))"
      proof (cases "j = a")
        case True
        with Inl show ?thesis by simp
      next
        case False
        with j have "Suc a \<le> j" "j < n" by simp_all
        with fl have "isl (attempt_result E url wd fn cs (Suc ?g + (j - Suc a)))" by blast
        moreover have "Suc ?g + (j - Suc a) = ?g + (j - a)" using \<open>Suc a \<le> j\<close> by simp
        ultimately show ?thesis by (simp only:)
      qed
    qed
    have r': "r = attempt_result E url wd fn cs (?g + (n - a))"
    proof -
      have "Suc ?g + (n - Suc a) = ?g + (n - a)" using n by simp
      with r show ?thesis by (simp only:)
    qed
    have an: "a \<le> n" using n by simp
    from an n(2) t g s f r' fin show ?thesis by blast
  qed
qed

text \<open>
  C7. A remote reference (no local path, no base64 payload, scheme http or https) is
  requested \<open>n\<close> times with \<open>1 \<le> n \<le> MAX_RETRIES = 3\<close>; after the failed attempt
  \<open>j < n\<close> the worker sleeps \<open>BACKOFF_SEC * j\<close>, linear in \<open>j\<close>; every attempt before the
  \<open>n\<close>-th failed, the result is the \<open>n\<close>-th attempt's, and when that is a failure it is
  the last allowed attempt, whose exception is raised to the caller.
\<close>

theorem download_retries:
  assumes "\<not> path_exists E ref" and "\<not> is_base64_payload E ref"
      and "url_scheme E ref = ''http'' \<or> url_scheme E ref = ''https''"
      and "download_from_url E ref workdir filename checksum w = (r, w')"
  shows "\<exists>n evs. 1 \<le> n \<and> n \<le> MAX_RETRIES \<and> MAX_RETRIES = 3 \<and> trace w' = trace w @ evs
           \<and> gets_of evs = replicate n ref
           \<and> sleeps_of evs = map (\<lambda>j. BACKOFF_SEC * real j) [1..<n]
           \<and> (\<forall>j. 1 \<le> j \<and> j < n \<longrightarrow>
                  isl (attempt_result E ref workdir filename checksum
                         (length (gets_of (trace w)) + (j - 1))))
           \<and> r = attempt_result E ref workdir filename checksum
                    (length (gets_of (trace w)) + (n - 1))
           \<and> (isl r \<longrightarrow> n = MAX_RETRIES)"
proof -
  from assms have loop:
    "download_loop E ref workdir filename checksum [1..<Suc MAX_RETRIES] None w = (r, w')"
    by (auto simp add: download_from_url_def)
  have "1 \<le> MAX_RETRIES" by (simp add: MAX_RETRIES_def)
  from download_loop_spec [OF this loop] show ?thesis
    by (simp add: MAX_RETRIES_def)
qed

lemma example_env_remote:
  "\<not> path_exists flaky_env ''https://example.com/a.png''
   \<and> \<not> is_base64_payload flaky_env ''https://example.com/a.png''
   \<and> url_scheme flaky_env ''https://example.com/a.png'' = ''https''
   \<and> \<not> path_exists dead_env ''https://example.com/a.png''
   \<and> \<not> is_base64_payload dead_env ''https://example.com/a.png''
   \<and> url_scheme dead_env ''https://example.com/a.png'' = ''https''"
  by (simp add: flaky_env_def dead_env_def example_env_def is_base64_payload_def)

lemma flaky_download:
  "download_from_url flaky_env ''https://example.com/a.png'' ''/tmp/job-1'' (Some ''cond_video'') None world0
     = (Inr \<lparr>path = ''/tmp/job-1/cond_video'', bytes = 10, mime = None,
             from_url = Some ''https://example.com/a.png''\<rparr>,
        \<lparr>trace = [HttpGet ''https://example.com/a.png'', Sleep 1.5,
                  HttpGet ''https://example.com/a.png'', Sleep 3,
                  HttpGet ''https://example.com/a.png''],
         clock_reads = 0\<rparr>)"
  by (simp add: download_from_url_def flaky_env_def example_env_def is_base64_payload_def
      MAX_RETRIES_def upt_conv_Cons download_attempt_def attempt_result_def world0_def
      emit_event_def BACKOFF_SEC_def attempt_name_def mime_to_ext_def path_join_def)

lemma dead_download:
  "download_from_url dead_env ''https://example.com/a.png'' ''/tmp/job-1'' (Some ''cond_video'') None world0
     = (Inl (Exn OSError ''connection refused''),
        \<lparr>trace = [HttpGet ''https://example.com/a.png'', Sleep 1.5,
                  HttpGet ''https://example.com/a.png'', Sleep 3,
                  HttpGet ''https://example.com/a.png''],
         clock_reads = 0\<rparr>)"
  by (simp add: download_from_url_def dead_env_def example_env_def is_base64_payload_def
      MAX_RETRIES_def upt_conv_Cons download_attempt_def attempt_result_def world0_def
      emit_event_def BACKOFF_SEC_def)

theorem download_retries_witness:
  "\<not> path_exists dead_env ''https://example.com/a.png''
   \<and> \<not> is_base64_payload dead_env ''https://example.com/a.png''
   \<and> url_scheme dead_env ''https://example.com/a.png'' = ''https''
   \<and> download_from_url dead_env ''https://example.com/a.png'' ''/tmp/job-1'' (Some ''cond_video'') None world0
       = (Inl (Exn OSError ''connection refused''),
          \<lparr>trace = [HttpGet ''https://example.com/a.png'', Sleep 1.5,
                    HttpGet ''https://example.com/a.png'', Sleep 3,
                    HttpGet ''https://example.com/a.png''],
           clock_reads = 0\<rparr>)
   \<and> download_from_url flaky_env ''https://example.com/a.png'' ''/tmp/job-1'' (Some ''cond_video'') None world0
       = (Inr \<lparr>path = ''/tmp/job-1/cond_video'', bytes = 10, mime = None,
               from_url = Some ''https://example.com/a.png''\<rparr>,
          \<lparr>trace = [HttpGet ''https://example.com/a.png'', Sleep 1.5,
                    HttpGet ''https://example.com/a.png'', Sleep 3,
                    HttpGet ''https://example.com/a.png''],
           clock_reads = 0\<rparr>)
   \<and> (\<exists>n evs. 1 \<le> n \<and> n \<le> MAX_RETRIES \<and> MAX_RETRIES = 3
          \<and> [HttpGet ''https://example.com/a.png'', Sleep 1.5,
              HttpGet ''https://example.com/a.png'', Sleep 3,
              HttpGet ''https://example.com/a.png''] = trace world0 @ evs
          \<and> gets_of evs = replicate n ''https://example.com/a.png''
          \<and> sleeps_of evs = map (\<lambda>j. BACKOFF_SEC * real j) [1..<n]
          \<and> n = MAX_RETRIES)"
proof -
  have h1: "\<not> path_exists dead_env ''https://example.com/a.png''"
    and h2: "\<not> is_base64_payload dead_env ''https://example.com/a.png''"
    and h3: "url_scheme dead_env ''https://example.com/a.png'' = ''http''
               \<or> url_scheme dead_env ''https://example.com/a.png'' = ''https''"
    using example_env_remote by simp_all
  from download_retries [OF h1 h2 h3 dead_download]
  have "\<exists>n evs. 1 \<le> n \<and> n \<le> MAX_RETRIES \<and> MAX_RETRIES = 3
          \<and> [HttpGet ''https://example.com/a.png'', Sleep 1.5,
              HttpGet ''https://example.com/a.png'', Sleep 3,
              HttpGet ''https://example.com/a.png''] = trace world0 @ evs
          \<and> gets_of evs = replicate n ''https://example.com/a.png''
          \<and> sleeps_of evs = map (\<lambda>j. BACKOFF_SEC * real j) [1..<n]
          \<and> n = MAX_RETRIES"
    by (auto simp add: world0_def)
  with example_env_remote dead_download flaky_download show ?thesis by blast
qed

section \<open>Properties of the polling loop\<close>

lemma poll_interval_range:
  "0 \<le> e \<Longrightarrow> POLL_INIT_SEC \<le> poll_interval e \<and> poll_interval e \<le> POLL_MAX_SEC"
  by (simp add: poll_interval_def POLL_INIT_SEC_def POLL_MAX_SEC_def POLL_BACKOFF_AFTER_S_def)

lemma poll_interval_mono: "e \<le> e' \<Longrightarrow> poll_interval e \<le> poll_interval e'"
  by (simp add: poll_interval_def POLL_INIT_SEC_def POLL_MAX_SEC_def POLL_BACKOFF_AFTER_S_def
      min_def divide_right_mono)

lemma poll_interval_linear:
  "0 \<le> e \<Longrightarrow> e \<le> POLL_BACKOFF_AFTER_S \<Longrightarrow>
     poll_interval e = POLL_INIT_SEC + e * ((POLL_MAX_SEC - POLL_INIT_SEC) / POLL_BACKOFF_AFTER_S)"
  by (simp add: poll_interval_def POLL_INIT_SEC_def POLL_MAX_SEC_def POLL_BACKOFF_AFTER_S_def
      min_def)

lemma poll_interval_capped: "POLL_BACKOFF_AFTER_S \<le> e \<Longrightarrow> poll_interval e = POLL_MAX_SEC"
  by (simp add: poll_interval_def POLL_INIT_SEC_def POLL_MAX_SEC_def POLL_BACKOFF_AFTER_S_def
      min_def)

lemma poll_loop_slept:
  "\<exists>m. snd (poll_loop E fuel k slept)
         = slept @ map (\<lambda>j. poll_interval (time_time E (Suc j) - time_time E 0)) [k..<k + m]"
proof (induction fuel arbitrary: k slept)
  case 0
  show ?case by (rule exI [of _ 0]) simp
next
  case (Suc fuel)
  show ?case
  proof (cases "\<exists>status s. get_status E k = Inr status \<and> percent_ok E status
                  \<and> status_upper status = Some s
                  \<and> s \<notin> set [''COMPLETED'', ''FAILED'', ''TIMEOUT'']
                  \<and> \<not> poll_interval (time_time E (Suc k) - time_time E 0) < 0")
    case True
    then have step: "poll_loop E (Suc fuel) k slept
        = poll_loop E fuel (Suc k) (slept @ [poll_interval (time_time E (Suc k) - time_time E 0)])"
      by (auto simp add: Let_def)
    from Suc.IH [of "Suc k" "slept @ [poll_interval (time_time E (Suc k) - time_time E 0)]"]
    obtain m where m: "snd (poll_loop E fuel (Suc k)
                              (slept @ [poll_interval (time_time E (Suc k) - time_time E 0)]))
        = (slept @ [poll_interval (time_time E (Suc k) - time_time E 0)])
          @ map (\<lambda>j. poll_interval (time_time E (Suc j) - time_time E 0)) [Suc k..<Suc k + m]"
      by blast
    have u: "[k..<k + Suc m] = k # [Suc k..<Suc k + m]"
      by (simp add: upt_conv_Cons)
    show ?thesis
      apply (rule exI [of _ "Suc m"])
      unfolding step m u by simp
  next
    case False
    then have "snd (poll_loop E (Suc fuel) k slept) = slept"
      by (auto simp add: Let_def split: sum.splits option.splits)
    then show ?thesis by (intro exI [of _ 0]) simp
  qed
qed

lemma poll_interval_le_max: "poll_interval e \<le> POLL_MAX_SEC"
  by (simp add: poll_interval_def)

text \<open>
  C8, as amended. The interval is the minimum at elapsed time zero, grows with the
  elapsed time, linearly up to the threshold, and is the maximum from the threshold on.
  The intervals the loop sleeps are this function of the elapsed time of each iteration;
  none of them exceeds the maximum, and the one of an iteration whose reading of the clock
  is not behind the start of the loop is not below the minimum. The source takes the
  \<^verbatim>\<open>min\<close> with the maximum and has no clamp from below.
\<close>

theorem poll_interval_bounds:
  "poll_interval 0 = POLL_INIT_SEC
   \<and> (\<forall>e e'. e \<le> e' \<longrightarrow> poll_interval e \<le> poll_interval e')
   \<and> (\<forall>e. 0 \<le> e \<and> e \<le> POLL_BACKOFF_AFTER_S \<longrightarrow>
         poll_interval e
           = POLL_INIT_SEC + e * ((POLL_MAX_SEC - POLL_INIT_SEC) / POLL_BACKOFF_AFTER_S))
   \<and> (\<forall>e. POLL_BACKOFF_AFTER_S \<le> e \<longrightarrow> poll_interval e = POLL_MAX_SEC)
   \<and> (\<exists>m. snd (poll_status_stream E fuel)
            = map (\<lambda>j. poll_interval (time_time E (Suc j) - time_time E 0)) [0..<m])
   \<and> (\<forall>s \<in> set (snd (poll_status_stream E fuel)). s \<le> POLL_MAX_SEC)
   \<and> (\<forall>j < length (snd (poll_status_stream E fuel)).
         time_time E 0 \<le> time_time E (Suc j)
         \<longrightarrow> POLL_INIT_SEC \<le> snd (poll_status_stream E fuel) ! j)"
proof -
  have a: "poll_interval 0 = POLL_INIT_SEC"
    using poll_interval_linear [of 0] by (simp add: POLL_BACKOFF_AFTER_S_def)
  from poll_loop_slept [of E fuel 0 "[]"] obtain m where
    m: "snd (poll_status_stream E fuel)
          = map (\<lambda>j. poll_interval (time_time E (Suc j) - time_time E 0)) [0..<m]"
    by (auto simp add: poll_status_stream_def)
  have b: "\<forall>s \<in> set (snd (poll_status_stream E fuel)). s \<le> POLL_MAX_SEC"
    unfolding m by (auto simp add: poll_interval_le_max)
  have c: "\<forall>j < length (snd (poll_status_stream E fuel)).
         time_time E 0 \<le> time_time E (Suc j)
         \<longrightarrow> POLL_INIT_SEC \<le> snd (poll_status_stream E fuel) ! j"
  proof (intro allI impI)
    fix j
    assume j: "j < length (snd (poll_status_stream E fuel))"
      and t: "time_time E 0 \<le> time_time E (Suc j)"
    from j have "j < m" unfolding m by simp
    then have "snd (poll_status_stream E fuel) ! j
                 = poll_interval (time_time E (Suc j) - time_time E 0)"
      unfolding m by simp
    moreover from t have "0 \<le> time_time E (Suc j) - time_time E 0" by simp
    ultimately show "POLL_INIT_SEC \<le> snd (poll_status_stream E fuel) ! j"
      using poll_interval_range [of "time_time E (Suc j) - time_time E 0"] by simp
  qed
  from m have m': "\<exists>m. snd (poll_status_stream E fuel)
            = map (\<lambda>j. poll_interval (time_time E (Suc j) - time_time E 0)) [0..<m]" ..
  from a m' b c poll_interval_mono poll_interval_linear poll_interval_capped show ?thesis
    by (intro conjI) auto
qed

lemma example_poll_run:
  "poll_status_stream example_poll_env 5
     = (Some (Completed (JDict Map.empty)), [4, 6])"
  by (simp add: poll_status_stream_def example_poll_env_def eval_nat_numeral status_upper_def
      upper_def upper_char_def output_or_empty_def poll_interval_def POLL_INIT_SEC_def
      POLL_MAX_SEC_def POLL_BACKOFF_AFTER_S_def Let_def percent_ok_def)

theorem poll_interval_bounds_witness:
  "poll_status_stream example_poll_env 5 = (Some (Completed (JDict Map.empty)), [4, 6])
   \<and> time_time example_poll_env 0 \<le> time_time example_poll_env 1
   \<and> time_time example_poll_env 0 \<le> time_time example_poll_env 2
   \<and> POLL_INIT_SEC \<le> 4 \<and> POLL_INIT_SEC \<le> 6 \<and> 4 \<le> POLL_MAX_SEC \<and> 6 \<le> POLL_MAX_SEC
   \<and> poll_interval 0 = POLL_INIT_SEC"
proof -
  have t: "time_time example_poll_env 0 \<le> time_time example_poll_env (Suc 0)"
    "time_time example_poll_env 0 \<le> time_time example_poll_env (Suc (Suc 0))"
    by (simp_all add: example_poll_env_def)
  note b = poll_interval_bounds [of example_poll_env 5, unfolded example_poll_run snd_conv]
  from b have up: "\<forall>s \<in> set [4, 6 :: real]. s \<le> POLL_MAX_SEC" by blast
  from b have lo: "\<forall>j < length [4, 6 :: real].
         time_time example_poll_env 0 \<le> time_time example_poll_env (Suc j)
         \<longrightarrow> POLL_INIT_SEC \<le> [4, 6 :: real] ! j" by blast
  from lo [THEN spec, of 0] t have "POLL_INIT_SEC \<le> 4" by simp
  moreover from lo [THEN spec, of "Suc 0"] t have "POLL_INIT_SEC \<le> 6" by simp
  moreover from up have "4 \<le> POLL_MAX_SEC" "6 \<le> POLL_MAX_SEC" by simp_all
  moreover from b have "poll_interval 0 = POLL_INIT_SEC" by blast
  ultimately show ?thesis using example_poll_run t by (simp add: eval_nat_numeral)
qed

text \<open>
  C8 as stated fails: when the wall clock is set back after the loop has started, the
  elapsed time is negative and the loop sleeps one second, below the minimum of two.
\<close>

theorem poll_interval_below_minimum:
  "time_time setback_poll_env 1 < time_time setback_poll_env 0
   \<and> poll_status_stream setback_poll_env 5 = (Some (Completed (JDict Map.empty)), [1, 1])
   \<and> (1 :: real) < POLL_INIT_SEC"
  by (simp add: poll_status_stream_def setback_poll_env_def example_poll_env_def
      eval_nat_numeral status_upper_def upper_def upper_char_def output_or_empty_def
      poll_interval_def POLL_INIT_SEC_def POLL_MAX_SEC_def POLL_BACKOFF_AFTER_S_def Let_def
      percent_ok_def)

section \<open>What the collaborators add to the trace\<close>

lemma progress_of_append: "progress_of (xs @ ys) = progress_of xs @ progress_of ys"
  by (induction xs rule: progress_of.induct) simp_all

lemma seeds_of_append: "seeds_of (xs @ ys) = seeds_of xs @ seeds_of ys"
  by (induction xs rule: seeds_of.induct) simp_all

lemma extends_refl: "extends w w [] []"
  by (simp add: extends_def)

lemma extends_trans:
  "extends w w1 ps ss \<Longrightarrow> extends w1 w2 qs rs \<Longrightarrow> extends w w2 (ps @ qs) (ss @ rs)"
  by (auto simp add: extends_def progress_of_append seeds_of_append)

lemma extends_quiet_trans:
  "extends w w1 [] [] \<Longrightarrow> extends w1 w2 [] [] \<Longrightarrow> extends w w2 [] []"
  using extends_trans [of w w1 "[]" "[]" w2 "[]" "[]"] by simp

lemma extends_emit_event:
  "progress_of [e] = [] \<Longrightarrow> seeds_of [e] = [] \<Longrightarrow> extends w (emit_event e w) [] []"
  by (auto simp add: extends_def emit_event_def)

lemma extends_emit_None: "extends w (emit l ev None w) [] []"
  by (auto simp add: extends_def emit_def)

lemma extends_emit_Some: "extends w (emit l ev (Some p) w) [(ev, p)] []"
  by (auto simp add: extends_def emit_def)

lemma extends_clock: "extends w w1 ps ss \<Longrightarrow> extends (w\<lparr>clock_reads := n\<rparr>) w1 ps ss"
  by (simp add: extends_def)

lemma download_attempt_quiet:
  "download_attempt E url wd fn cs w = (r, w') \<Longrightarrow> extends w w' [] []"
  by (auto simp add: download_attempt_def intro: extends_emit_event)

lemma download_loop_quiet:
  "download_loop E url wd fn cs as lerr w = (r, w') \<Longrightarrow> extends w w' [] []"
proof (induction as arbitrary: lerr w)
  case Nil
  then show ?case by (auto simp add: extends_refl split: option.splits)
next
  case (Cons a as)
  obtain r1 w1 where a: "download_attempt E url wd fn cs w = (r1, w1)"
    by (cases "download_attempt E url wd fn cs w")
  then have q1: "extends w w1 [] []" by (rule download_attempt_quiet)
  show ?case
  proof (cases r1)
    case (Inr res)
    with a Cons.prems q1 show ?thesis by auto
  next
    case (Inl e)
    show ?thesis
    proof (cases "a = MAX_RETRIES")
      case True
      with Inl a Cons.prems q1 show ?thesis by auto
    next
      case False
      with Inl a Cons.prems have
        "download_loop E url wd fn cs as (Some e) (emit_event (Sleep (BACKOFF_SEC * real a)) w1) = (r, w')"
        by simp
      from Cons.IH [OF this] have "extends (emit_event (Sleep (BACKOFF_SEC * real a)) w1) w' [] []" .
      moreover have "extends w1 (emit_event (Sleep (BACKOFF_SEC * real a)) w1) [] []"
        by (rule extends_emit_event) simp_all
      ultimately show ?thesis using q1 by (blast intro: extends_quiet_trans)
    qed
  qed
qed

lemma download_from_url_quiet:
  "download_from_url E ref wd fn cs w = (r, w') \<Longrightarrow> extends w w' [] []"
  by (auto simp add: download_from_url_def extends_refl split: if_splits sum.splits
      dest: download_loop_quiet)

lemma download_ref_quiet:
  "download_ref E v wd fn w = (r, w') \<Longrightarrow> extends w w' [] []"
  by (auto simp add: download_ref_def extends_refl split: jv.splits dest: download_from_url_quiet)

lemma two_speakers_quiet:
  "two_speakers E params ca wd idata w = (r, w') \<Longrightarrow> extends w w' [] []"
  unfolding two_speakers_def
  by (auto simp add: Let_def split: prod.splits sum.splits option.splits
      dest!: download_ref_quiet intro: extends_quiet_trans)

lemma single_speaker_quiet:
  "single_speaker E ca wd idata w = (r, w') \<Longrightarrow> extends w w' [] []"
  unfolding single_speaker_def
  by (auto simp add: Let_def split: prod.splits sum.splits option.splits
      dest!: download_ref_quiet)

lemma audio_inputs_quiet:
  "audio_inputs E params wd idata w = (r, w') \<Longrightarrow> extends w w' [] []"
  unfolding audio_inputs_def
  by (auto simp add: extends_refl split: option.splits bool.splits jv.splits if_splits
      dest: two_speakers_quiet single_speaker_quiet)

lemma prepare_inputs_quiet:
  "prepare_inputs E params wd w = (r, w') \<Longrightarrow> extends w w' [] []"
  unfolding prepare_inputs_def
  by (auto simp add: extends_refl split: option.splits prod.splits sum.splits if_splits
      dest!: download_ref_quiet audio_inputs_quiet intro: extends_quiet_trans)

lemma build_pipeline_checked_quiet:
  "build_pipeline_checked E params w = (r, w') \<Longrightarrow> extends w w' [] []"
  by (auto simp add: build_pipeline_checked_def extends_refl split: if_splits
      intro: extends_emit_event)

lemma run_generate_quiet:
  "run_generate E params w = (r, w') \<Longrightarrow> extends w w' [] []"
  by (auto simp add: run_generate_def extends_refl split: option.splits
      intro: extends_emit_event)

lemma save_video_quiet:
  "save_video E params wd w = (r, w') \<Longrightarrow> extends w w' [] []"
  by (auto simp add: save_video_def Let_def split: option.splits sum.splits
      intro: extends_emit_event)

lemma oom_retry_quiet:
  "oom_retry E params w = (r, w') \<Longrightarrow> extends w w' [] []"
  unfolding oom_retry_def
  by (auto simp add: extends_refl split: sum.splits prod.splits option.splits
      dest!: build_pipeline_checked_quiet run_generate_quiet
      intro: extends_quiet_trans extends_emit_None)

lemma run_inference_created:
  "makedirs E (trace w) wd = None \<Longrightarrow>
     run_inference E params wd w =
       (case prepare_inputs E params wd w of
          (Inl e, w1) \<Rightarrow> (Inl e, w1)
        | (Inr input_data, w1) \<Rightarrow>
            (case build_pipeline_checked E params w1 of
               (Some e, w2) \<Rightarrow> (Inl e, w2)
             | (None, w2) \<Rightarrow>
                 (case run_generate E params w2 of
                    (None, w3) \<Rightarrow> save_video E params wd w3
                  | (Some e, w3) \<Rightarrow>
                      if is_OutOfMemoryError e then
                        (case oom_retry E params w3 of
                           (Some e2, w4) \<Rightarrow> (Inl e2, w4)
                         | (None, w4) \<Rightarrow> save_video E params wd w4)
                      else (Inl e, w3))))"
  by (simp add: run_inference_def)

lemma run_inference_not_created:
  "makedirs E (trace w) wd = Some e \<Longrightarrow> run_inference E params wd w = (Inl e, w)"
  by (simp add: run_inference_def)

lemma run_inference_quiet:
  assumes "run_inference E params wd w = (r, w')"
  shows "extends w w' [] []"
proof (cases "makedirs E (trace w) wd")
  case (Some e)
  from assms run_inference_not_created [OF Some] show ?thesis
    by (simp add: extends_refl)
next
  case None
  note created = run_inference_created [OF None]
  obtain r1 w1 where p: "prepare_inputs E params wd w = (r1, w1)"
    by (cases "prepare_inputs E params wd w")
  then have q1: "extends w w1 [] []" by (rule prepare_inputs_quiet)
  show ?thesis
  proof (cases r1)
    case (Inl e)
    with p assms q1 show ?thesis by (simp add: created)
  next
    case (Inr idata)
    obtain r2 w2 where b: "build_pipeline_checked E params w1 = (r2, w2)"
      by (cases "build_pipeline_checked E params w1")
    then have q2: "extends w w2 [] []"
      using q1 by (blast intro: extends_quiet_trans dest: build_pipeline_checked_quiet)
    show ?thesis
    proof (cases r2)
      case (Some e)
      with p Inr b assms q2 show ?thesis by (simp add: created)
    next
      case None
      obtain r3 w3 where g: "run_generate E params w2 = (r3, w3)"
        by (cases "run_generate E params w2")
      then have q3: "extends w w3 [] []"
        using q2 by (blast intro: extends_quiet_trans dest: run_generate_quiet)
      show ?thesis
      proof (cases r3)
        case None
        with p Inr b \<open>r2 = None\<close> g assms have "save_video E params wd w3 = (r, w')"
          by (simp add: created)
        with q3 show ?thesis by (blast intro: extends_quiet_trans dest: save_video_quiet)
      next
        case (Some e)
        show ?thesis
        proof (cases "is_OutOfMemoryError e")
          case False
          with Some p Inr b \<open>r2 = None\<close> g assms q3 show ?thesis
            by (simp add: created)
        next
          case True
          obtain r4 w4 where o: "oom_retry E params w3 = (r4, w4)"
            by (cases "oom_retry E params w3")
          then have q4: "extends w w4 [] []"
            using q3 by (blast intro: extends_quiet_trans dest: oom_retry_quiet)
          show ?thesis
          proof (cases r4)
            case (Some e2)
            with True \<open>r3 = Some e\<close> p Inr b \<open>r2 = None\<close> g o assms q4 show ?thesis
              by (simp add: created)
          next
            case None
            with True \<open>r3 = Some e\<close> p Inr b \<open>r2 = None\<close> g o assms
            have "save_video E params wd w4 = (r, w')"
              by (simp add: created)
            with q4 show ?thesis by (blast intro: extends_quiet_trans dest: save_video_quiet)
          qed
        qed
      qed
    qed
  qed
qed

lemma upload_quiet:
  "upload_artifacts_if_any E cfg vp mi n w = (r, w') \<Longrightarrow> extends w w' [] []"
  unfolding upload_artifacts_if_any_def
  by (auto simp add: extends_refl Let_def split: option.splits jv.splits sum.splits if_splits
      intro: extends_emit_event)

section \<open>Properties of the orchestrator\<close>


lemma extends_log_event_Some: "extends w (log_event l ev (Some p) w) [(ev, p)] []"
  by (simp add: log_event_def extends_emit_Some)

lemma extends_progress: "extends w (progress E ev p w) [(ev, p)] []"
proof -
  have "extends w (if sdk_progress E then emit_event (ProgressUpdate ev p) w else w) [] []"
    by (auto simp add: extends_refl intro: extends_emit_event)
  from extends_trans [OF this extends_log_event_Some] show ?thesis
    by (simp add: progress_def)
qed

lemma cp_spec:
  "cp E name pct (c, w) = (c', w') \<Longrightarrow>
     map event c' = map event c @ [name] \<and> extends w w' [(name, pct)] []"
  using extends_progress [of "w\<lparr>clock_reads := Suc (clock_reads w)\<rparr>" E name pct]
  by (auto simp add: cp_def extends_def)

lemma cp_spec2:
  "\<exists>c' w'. cp E name pct (c, w) = (c', w')
     \<and> map event c' = map event c @ [name] \<and> extends w w' [(name, pct)] []"
  using cp_spec [of E name pct c w] by (cases "cp E name pct (c, w)") auto

lemma before_generation_spec:
  assumes "before_generation E w = (c, w')"
  shows "map event c = [''validated'', ''models_loading'', ''models_ready'',
                        ''preprocessing_done'', ''generation_start'']
       \<and> extends w w' [(''validated'', 2), (''models_loading'', 15), (''models_ready'', 18),
                        (''preprocessing_done'', 19), (''generation_start'', 20)] []"
proof -
  obtain c1 w1 where s1: "cp E ''validated'' 2 ([], w) = (c1, w1)"
    and e1: "map event c1 = [''validated'']" "extends w w1 [(''validated'', 2)] []"
    using cp_spec2 [of E "''validated''" 2 "[]" w] by auto
  let ?w1 = "emit ''INFO'' ''models_loading'' None w1"
  obtain c2 w2 where s2: "cp E ''models_loading'' 15 (c1, ?w1) = (c2, w2)"
    and e2: "map event c2 = map event c1 @ [''models_loading'']"
            "extends ?w1 w2 [(''models_loading'', 15)] []"
    using cp_spec2 [of E "''models_loading''" 15 c1 ?w1] by auto
  let ?w2 = "emit ''INFO'' ''models_loading_ok'' None w2"
  obtain c3 w3 where s3: "cp E ''models_ready'' 18 (c2, ?w2) = (c3, w3)"
    and e3: "map event c3 = map event c2 @ [''models_ready'']"
            "extends ?w2 w3 [(''models_ready'', 18)] []"
    using cp_spec2 [of E "''models_ready''" 18 c2 ?w2] by auto
  obtain c4 w4 where s4: "cp E ''preprocessing_done'' 19 (c3, w3) = (c4, w4)"
    and e4: "map event c4 = map event c3 @ [''preprocessing_done'']"
            "extends w3 w4 [(''preprocessing_done'', 19)] []"
    using cp_spec2 [of E "''preprocessing_done''" 19 c3 w3] by auto
  obtain c5 w5 where s5: "cp E ''generation_start'' 20 (c4, w4) = (c5, w5)"
    and e5: "map event c5 = map event c4 @ [''generation_start'']"
            "extends w4 w5 [(''generation_start'', 20)] []"
    using cp_spec2 [of E "''generation_start''" 20 c4 w4] by auto
  from assms s1 s2 s3 s4 s5 have r: "c = c5" "w' = emit ''INFO'' ''generation'' None w5"
    by (simp_all add: before_generation_def)
  have x1: "extends w ?w1 [(''validated'', 2)] []"
    using extends_trans [OF e1(2) extends_emit_None] by simp
  have x2: "extends w ?w2 [(''validated'', 2), (''models_loading'', 15)] []"
    using extends_trans [OF extends_trans [OF x1 e2(2)] extends_emit_None] by simp
  have x3: "extends w w3 [(''validated'', 2), (''models_loading'', 15), (''models_ready'', 18)] []"
    using extends_trans [OF x2 e3(2)] by simp
  have x4: "extends w w4 [(''validated'', 2), (''models_loading'', 15), (''models_ready'', 18),
                          (''preprocessing_done'', 19)] []"
    using extends_trans [OF x3 e4(2)] by simp
  have x5: "extends w w' [(''validated'', 2), (''models_loading'', 15), (''models_ready'', 18),
                          (''preprocessing_done'', 19), (''generation_start'', 20)] []"
    using extends_trans [OF extends_trans [OF x4 e5(2)] extends_emit_None] r by simp
  from r e1 e2 e3 e4 e5 x5 show ?thesis by simp
qed

lemma caught_checkpoints: "checkpoints_of (caught job_id e c t) = c"
  by (simp add: caught_def checkpoints_of_def error_output_of_def split: prod.splits)

lemma caught_Error: "\<exists>eo. caught job_id e c t = Error eo"
  by (simp add: caught_def error_output_of_def split: prod.splits)

lemma after_generation_spec:
  assumes "after_generation E job_id params result (c, w) = (r, w')"
  shows "(\<forall>out. r = Success out \<longrightarrow>
            map event (s_checkpoints out)
              = map event c @ [''postprocess_mux'', ''uploading_artifacts'', ''completed'']
            \<and> extends w w' [(''postprocess_mux'', 90), (''uploading_artifacts'', 92),
                             (''completed'', 100)] [])
       \<and> (\<exists>ps. extends w w' ps [])
       \<and> (\<exists>rest. map event (checkpoints_of r) = map event c @ rest)"
proof -
  obtain c1 w1 where s1: "cp E ''postprocess_mux'' 90 (c, w) = (c1, w1)"
    and e1: "map event c1 = map event c @ [''postprocess_mux'']"
            "extends w w1 [(''postprocess_mux'', 90)] []"
    using cp_spec2 [of E "''postprocess_mux''" 90 c w] by auto
  obtain c2 w2 where s2: "cp E ''uploading_artifacts'' 92 (c1, w1) = (c2, w2)"
    and e2: "map event c2 = map event c1 @ [''uploading_artifacts'']"
            "extends w1 w2 [(''uploading_artifacts'', 92)] []"
    using cp_spec2 [of E "''uploading_artifacts''" 92 c1 w1] by auto
  let ?cfg = "case params ''output_config'' of
                None \<Rightarrow> JDict Map.empty
              | Some v \<Rightarrow> if truthy v then v else JDict Map.empty"
  obtain u w3 where up: "upload_artifacts_if_any E ?cfg (video_path result) ''video/mp4''
                           (int (video_bytes result)) w2 = (u, w3)"
    by (cases "upload_artifacts_if_any E ?cfg (video_path result) ''video/mp4''
                 (int (video_bytes result)) w2")
  have x2: "extends w w2 [(''postprocess_mux'', 90), (''uploading_artifacts'', 92)] []"
    using extends_trans [OF e1(2) e2(2)] by simp
  have x3: "extends w w3 [(''postprocess_mux'', 90), (''uploading_artifacts'', 92)] []"
    using extends_trans [OF x2 upload_quiet [OF up]] by simp
  show ?thesis
  proof (cases u)
    case (Inl e)
    with assms s1 s2 up have r: "r = caught job_id e c2 [''generation_ms'']" "w' = w3"
      by (simp_all add: after_generation_def)
    from caught_Error [of job_id e c2 "[''generation_ms'']"] r
    have ns: "\<forall>out. r \<noteq> Success out" by auto
    from r x3 ns e1 e2 show ?thesis by (auto simp add: caught_checkpoints)
  next
    case (Inr t)
    obtain arts warns summary where t: "t = (arts, warns, summary)" by (cases t)
    obtain c4 w4 where s4: "cp E ''completed'' 100 (c2, w3) = (c4, w4)"
      and e4: "map event c4 = map event c2 @ [''completed'']"
              "extends w3 w4 [(''completed'', 100)] []"
      using cp_spec2 [of E "''completed''" 100 c2 w3] by auto
    let ?so = "success_output_of E job_id params summary arts warns
                 [''generation_ms'', ''total_ms''] c4"
    have x4: "extends w w4 [(''postprocess_mux'', 90), (''uploading_artifacts'', 92),
                            (''completed'', 100)] []"
      using extends_trans [OF x3 e4(2)] by simp
    show ?thesis
    proof (cases ?so)
      case (Inl e)
      with Inr t assms s1 s2 up s4 have r:
        "r = caught job_id e c4 [''generation_ms'', ''total_ms'']" "w' = w4"
        by (simp_all add: after_generation_def)
      from caught_Error [of job_id e c4 "[''generation_ms'', ''total_ms'']"] r
      have ns: "\<forall>out. r \<noteq> Success out" by auto
      from r x4 ns e1 e2 e4 show ?thesis by (auto simp add: caught_checkpoints)
    next
      case so: (Inr r')
      with Inr t assms s1 s2 up s4 have r: "r = r'" "w' = w4"
        by (simp_all add: after_generation_def)
      from so have c: "checkpoints_of r' = c4" "\<forall>out. r' = Success out \<longrightarrow> s_checkpoints out = c4"
        by (auto simp add: success_output_of_def checkpoints_of_def split: jv.splits)
      from r c x4 e1 e2 e4 show ?thesis by auto
    qed
  qed
qed

lemma run_single_item_spec:
  assumes "run_single_item E job_id params workdir w = (r, w')"
  shows "(\<forall>out. r = Success out \<longrightarrow>
            map event (s_checkpoints out)
              = [''validated'', ''models_loading'', ''models_ready'', ''preprocessing_done'',
                 ''generation_start'', ''postprocess_mux'', ''uploading_artifacts'', ''completed'']
            \<and> extends w w' [(''validated'', 2), (''models_loading'', 15), (''models_ready'', 18),
                             (''preprocessing_done'', 19), (''generation_start'', 20),
                             (''postprocess_mux'', 90), (''uploading_artifacts'', 92),
                             (''completed'', 100)] [])
       \<and> (\<exists>ps. extends w w' ps [])
       \<and> (\<exists>rest. map event (checkpoints_of r) = ''validated'' # rest)"
proof -
  obtain c w1 where b: "before_generation E w = (c, w1)"
    by (cases "before_generation E w")
  note bs = before_generation_spec [OF b]
  obtain ri w2 where i: "run_inference E params workdir w1 = (ri, w2)"
    by (cases "run_inference E params workdir w1")
  note q = run_inference_quiet [OF i]
  show ?thesis
  proof (cases ri)
    case (Inl e)
    with assms b i have r: "r = caught job_id e c []"
      "w' = emit ''ERROR'' ''stage_error'' None w2"
      by (simp_all add: run_single_item_def)
    from caught_Error [of job_id e c "[]"] r have ns: "\<forall>out. r \<noteq> Success out" by auto
    have "extends w w' [(''validated'', 2), (''models_loading'', 15), (''models_ready'', 18),
                        (''preprocessing_done'', 19), (''generation_start'', 20)] []"
      using extends_trans [OF extends_trans [OF conjunct2 [OF bs] q] extends_emit_None] r
      by simp
    with ns r bs show ?thesis by (auto simp add: caught_checkpoints)
  next
    case (Inr result)
    let ?w2 = "emit ''INFO'' ''generation_ok'' None w2"
    from Inr assms b i have a: "after_generation E job_id params result (c, ?w2) = (r, w')"
      by (simp add: run_single_item_def)
    note as = after_generation_spec [OF a]
    have x: "extends w ?w2 [(''validated'', 2), (''models_loading'', 15), (''models_ready'', 18),
                        (''preprocessing_done'', 19), (''generation_start'', 20)] []"
      using extends_trans [OF extends_trans [OF conjunct2 [OF bs] q] extends_emit_None]
      by simp
    have s: "\<forall>out. r = Success out \<longrightarrow>
            map event (s_checkpoints out)
              = [''validated'', ''models_loading'', ''models_ready'', ''preprocessing_done'',
                 ''generation_start'', ''postprocess_mux'', ''uploading_artifacts'', ''completed'']
            \<and> extends w w' [(''validated'', 2), (''models_loading'', 15), (''models_ready'', 18),
                             (''preprocessing_done'', 19), (''generation_start'', 20),
                             (''postprocess_mux'', 90), (''uploading_artifacts'', 92),
                             (''completed'', 100)] []"
    proof (intro allI impI)
      fix out assume o: "r = Success out"
      with as have m: "map event (s_checkpoints out)
              = map event c @ [''postprocess_mux'', ''uploading_artifacts'', ''completed'']"
        and e: "extends ?w2 w' [(''postprocess_mux'', 90), (''uploading_artifacts'', 92),
                             (''completed'', 100)] []" by simp_all
      from extends_trans [OF x e] m bs
      show "map event (s_checkpoints out)
              = [''validated'', ''models_loading'', ''models_ready'', ''preprocessing_done'',
                 ''generation_start'', ''postprocess_mux'', ''uploading_artifacts'', ''completed'']
            \<and> extends w w' [(''validated'', 2), (''models_loading'', 15), (''models_ready'', 18),
                             (''preprocessing_done'', 19), (''generation_start'', 20),
                             (''postprocess_mux'', 90), (''uploading_artifacts'', 92),
                             (''completed'', 100)] []" by simp
    qed
    from as obtain ps where "extends ?w2 w' ps []" by blast
    from extends_trans [OF x this] have p: "\<exists>ps. extends w w' ps []" by auto
    from as obtain rest where "map event (checkpoints_of r) = map event c @ rest" by blast
    with bs have "\<exists>rest. map event (checkpoints_of r) = ''validated'' # rest" by simp
    with s p show ?thesis by blast
  qed
qed

text \<open>
  C1, as amended. The checkpoint list of a successful item is the eight stage names the
  orchestrator announces, in this order, each emitted with its percentage: 2, 15, 18, 19,
  20, 90, 92 and 100, which do not decrease and end at 100. \<^verbatim>\<open>received\<close> is a log line of
  \<^verbatim>\<open>run\<close>, not a checkpoint, and no stage \<^verbatim>\<open>generation_done\<close> is announced.
\<close>

theorem successful_item_checkpoints:
  assumes "run_single_item E job_id params workdir w = (Success out, w')"
  shows "map event (s_checkpoints out)
           = [''validated'', ''models_loading'', ''models_ready'', ''preprocessing_done'',
              ''generation_start'', ''postprocess_mux'', ''uploading_artifacts'', ''completed'']
       \<and> progress_of (drop (length (trace w)) (trace w'))
           = [(''validated'', 2), (''models_loading'', 15), (''models_ready'', 18),
              (''preprocessing_done'', 19), (''generation_start'', 20),
              (''postprocess_mux'', 90), (''uploading_artifacts'', 92), (''completed'', 100)]
       \<and> sorted (map snd (progress_of (drop (length (trace w)) (trace w'))))
       \<and> snd (last (progress_of (drop (length (trace w)) (trace w')))) = 100"
proof -
  from run_single_item_spec [OF assms] have
    m: "map event (s_checkpoints out)
           = [''validated'', ''models_loading'', ''models_ready'', ''preprocessing_done'',
              ''generation_start'', ''postprocess_mux'', ''uploading_artifacts'', ''completed'']"
    and e: "extends w w' [(''validated'', 2), (''models_loading'', 15), (''models_ready'', 18),
                          (''preprocessing_done'', 19), (''generation_start'', 20),
                          (''postprocess_mux'', 90), (''uploading_artifacts'', 92),
                          (''completed'', 100)] []"
    by simp_all
  from e have p: "progress_of (drop (length (trace w)) (trace w'))
           = [(''validated'', 2), (''models_loading'', 15), (''models_ready'', 18),
              (''preprocessing_done'', 19), (''generation_start'', 20),
              (''postprocess_mux'', 90), (''uploading_artifacts'', 92), (''completed'', 100)]"
    by (auto simp add: extends_def)
  show ?thesis unfolding p using m by simp
qed



text \<open>
  \<^verbatim>\<open>run\<close> once the logger is there, the input is normalized and the job's working
  directory is created: the seeding, then the batch loop or the single item.
\<close>

lemma run_created:
  assumes "get_logger (job_id_of E job) = None"
    and "normalize_and_validate (lax E) job (defaults_doc E) = Inr normalized"
    and "makedirs E (trace (maybe_keep_warm E (log_event ''INFO'' ''received'' None w)))
           (base_workdir_of E (job_id_of E job)) = None"
  shows "run E job w =
     (case normalized ''batch'' of
        Some batch_items \<Rightarrow>
          (case batch_iter E batch_items of
             Inl e \<Rightarrow>
               (Inl e, seed_rng normalized
                         (maybe_keep_warm E (log_event ''INFO'' ''received'' None w)))
           | Inr its \<Rightarrow>
               (case run_items E (job_id_of E job) (base_workdir_of E (job_id_of E job)) 0 its
                       (seed_rng normalized
                          (maybe_keep_warm E (log_event ''INFO'' ''received'' None w))) of
                  (Inl e, w3) \<Rightarrow> (Inl e, w3)
                | (Inr out_items, w3) \<Rightarrow>
                    (Inr (Batch
                       \<lparr>b_job_id = job_id_of E job,
                        b_status =
                          (if list_all (\<lambda>x. status_of (snd x) = ''success'') out_items
                           then ''success'' else ''partial''),
                        b_items = out_items\<rparr>), w3)))
      | None \<Rightarrow>
          (case run_single_item E (job_id_of E job) normalized
                  (base_workdir_of E (job_id_of E job))
                  (seed_rng normalized
                     (maybe_keep_warm E (log_event ''INFO'' ''received'' None w))) of
             (res, w3) \<Rightarrow> (Inr (Single res), w3)))"
  using assms by (simp add: run_def Let_def)



text \<open>
  The normalized form of a batch envelope has the keys \<^verbatim>\<open>batch\<close> and possibly
  \<^verbatim>\<open>output_config\<close> only: it never carries a \<^verbatim>\<open>base_seed\<close> of its own.
\<close>

lemma batch_never_seeded:
  assumes n: "normalize_and_validate (lax E) job (defaults_doc E) = Inr normalized"
      and i: "job ''input'' = Some (JDict payload)"
      and b: "''batch'' \<in> dom payload"
  shows "normalized ''base_seed'' = None"
proof -
  from n obtain p where p: "EnvelopeInput_model_validate (lax E) job = Inr p"
    by (auto simp add: normalize_and_validate_def split: sum.splits)
  with i have "p = payload" by (auto dest: envelope_payload)
  with p n b show ?thesis
    by (auto simp add: normalize_and_validate_def Let_def split: sum.splits jv.splits if_splits)
qed



lemma validate_items_ids:
  "validate_items P xs = Inr () \<Longrightarrow>
     \<forall>x \<in> set xs. \<exists>d. x = JDict d \<and> defaulted (nullable is_str) d ''id'' = []"
proof (induction xs)
  case Nil
  then show ?case by simp
next
  case (Cons x xs)
  from Cons.prems have ok: "BatchInput_model_validate P x = Inr ()"
    and rest: "validate_items P xs = Inr ()"
    by (auto split: sum.splits)
  from ok obtain d where d: "x = JDict d" "BatchInput_fields P d = []"
    by (auto simp add: BatchInput_model_validate_def split: jv.splits if_splits)
  then have "defaulted (nullable is_str) d ''id'' = []"
    by (simp add: BatchInput_fields_def)
  with d Cons.IH [OF rest] show ?case by auto
qed

lemma item_id_of_validated:
  "defaulted (nullable is_str) d ''id'' = [] \<Longrightarrow> \<exists>s. item_id_of E d k = Inr s"
  by (auto simp add: defaulted_def nullable_def is_str_def item_id_of_def
      split: option.splits if_splits jv.splits)

lemma run_items_spec:
  assumes ids: "\<forall>x \<in> set its. \<exists>d. x = JDict d \<and> defaulted (nullable is_str) d ''id'' = []"
      and dirs: "\<forall>evs p. makedirs E evs p = None"
  shows "\<exists>out w'. run_items E job_id base idx its w = (Inr out, w')
           \<and> length out = length its
           \<and> (\<forall>k < length its. \<exists>item wk. its ! k = JDict item
                 \<and> item_id_of E item (idx + k) = Inr (fst (out ! k))
                 \<and> snd (out ! k)
                     = fst (run_single_item E job_id item (path_join base (fst (out ! k))) wk)
                 \<and> (\<exists>rest. map event (checkpoints_of (snd (out ! k))) = ''validated'' # rest))"
  using ids
proof (induction its arbitrary: idx w)
  case Nil
  show ?case by simp
next
  case (Cons it its)
  from Cons.prems obtain item where it: "it = JDict item"
    and idok: "defaulted (nullable is_str) item ''id'' = []" by auto
  from item_id_of_validated [OF idok] obtain item_id where
    iid: "item_id_of E item idx = Inr item_id" by blast
  obtain res w1 where s: "run_single_item E job_id item (path_join base item_id) w = (res, w1)"
    by (cases "run_single_item E job_id item (path_join base item_id) w")
  from run_single_item_spec [OF s, THEN conjunct2, THEN conjunct2] obtain rest where
    cps: "map event (checkpoints_of res) = ''validated'' # rest" by (elim exE)
  from Cons.prems have "\<forall>x \<in> set its. \<exists>d. x = JDict d \<and> defaulted (nullable is_str) d ''id'' = []"
    by simp
  from Cons.IH [OF this, of "Suc idx" "maybe_keep_warm E w1"] obtain out w2 where
    rec: "run_items E job_id base (Suc idx) its (maybe_keep_warm E w1) = (Inr out, w2)" and
    len: "length out = length its" and
    each: "\<forall>k < length its. \<exists>item wk. its ! k = JDict item
                 \<and> item_id_of E item (Suc idx + k) = Inr (fst (out ! k))
                 \<and> snd (out ! k)
                     = fst (run_single_item E job_id item (path_join base (fst (out ! k))) wk)
                 \<and> (\<exists>rest. map event (checkpoints_of (snd (out ! k))) = ''validated'' # rest)"
    by blast
  let ?out = "(item_id, res) # out"
  have run: "run_items E job_id base idx (it # its) w = (Inr ?out, w2)"
    using it iid s rec dirs by simp
  have all: "\<forall>k < length (it # its). \<exists>item wk. (it # its) ! k = JDict item
                 \<and> item_id_of E item (idx + k) = Inr (fst (?out ! k))
                 \<and> snd (?out ! k)
                     = fst (run_single_item E job_id item (path_join base (fst (?out ! k))) wk)
                 \<and> (\<exists>rest. map event (checkpoints_of (snd (?out ! k))) = ''validated'' # rest)"
  proof (intro allI impI)
    fix k assume k: "k < length (it # its)"
    show "\<exists>item wk. (it # its) ! k = JDict item
                 \<and> item_id_of E item (idx + k) = Inr (fst (?out ! k))
                 \<and> snd (?out ! k)
                     = fst (run_single_item E job_id item (path_join base (fst (?out ! k))) wk)
                 \<and> (\<exists>rest. map event (checkpoints_of (snd (?out ! k))) = ''validated'' # rest)"
    proof (cases k)
      case 0
      with it iid s cps show ?thesis
        by (intro exI [of _ item] exI [of _ w]) simp
    next
      case (Suc j)
      with k have jlt: "j < length its" by simp
      from each [THEN spec, THEN mp, OF jlt] obtain item' wk where a:
        "its ! j = JDict item'
         \<and> item_id_of E item' (Suc idx + j) = Inr (fst (out ! j))
         \<and> snd (out ! j) = fst (run_single_item E job_id item' (path_join base (fst (out ! j))) wk)
         \<and> (\<exists>rest. map event (checkpoints_of (snd (out ! j))) = ''validated'' # rest)"
        by (elim exE)
      from a Suc show ?thesis
        by (intro exI [of _ item'] exI [of _ wk]) auto
    qed
  qed
  from run len all show ?case by (intro exI [of _ ?out] exI [of _ w2]) simp
qed

text \<open>
  The batch loop where every working directory can be made. For a valid batch envelope
  \<^verbatim>\<open>run\<close> then returns a batch result with one entry per item, in order: each entry
  is the result of \<^verbatim>\<open>_run_single_item\<close> on that item, with its own checkpoints from
  \<^verbatim>\<open>validated\<close> on, whatever happened to the items before it. The status of the batch is
  \<^verbatim>\<open>success\<close> exactly when every entry's status is \<^verbatim>\<open>success\<close>, and \<^verbatim>\<open>partial\<close> as soon
  as one is not.
\<close>

lemma batch_items_with_directories:
  assumes n: "normalize_and_validate (lax E) job (defaults_doc E) = Inr normalized"
      and i: "job ''input'' = Some (JDict payload)"
      and b: "''batch'' \<in> dom payload"
      and g: "get_logger (job_id_of E job) = None"
      and dirs: "\<forall>evs p. makedirs E evs p = None"
  shows "\<exists>its out w'. normalized ''batch'' = Some (JList its) \<and> its \<noteq> []
           \<and> run E job w = (Inr (Batch out), w')
           \<and> length (b_items out) = length its
           \<and> (\<forall>k < length its. \<exists>item wk. its ! k = JDict item
                 \<and> item_id_of E item k = Inr (fst (b_items out ! k))
                 \<and> snd (b_items out ! k)
                     = fst (run_single_item E (job_id_of E job) item
                              (path_join (base_workdir_of E (job_id_of E job))
                                 (fst (b_items out ! k))) wk)
                 \<and> (\<exists>rest. map event (checkpoints_of (snd (b_items out ! k)))
                             = ''validated'' # rest))
           \<and> ((b_status out = ''success'')
                 = (\<forall>x \<in> set (b_items out). status_of (snd x) = ''success''))
           \<and> ((\<exists>x \<in> set (b_items out). status_of (snd x) \<noteq> ''success'')
                 \<longrightarrow> b_status out = ''partial'')"
proof -
  from n obtain p where p: "EnvelopeInput_model_validate (lax E) job = Inr p"
    by (auto simp add: normalize_and_validate_def split: sum.splits)
  with i have pp: "p = payload" by (auto dest: envelope_payload)
  from p pp have chk: "check_single_or_batch (lax E) payload = Inr ()"
    by (auto simp add: EnvelopeInput_model_validate_def i split: if_splits sum.splits)
  from b obtain items where items: "payload ''batch'' = Some items" by auto
  with p pp n obtain raw ns where
    raw: "items = JList raw" and
    ni: "normalize_items (lax E) (defaults_doc E) raw = Inr ns"
    by (auto simp add: normalize_and_validate_def split: sum.splits jv.splits)
  let ?its = "map JDict ns"
  from items raw chk have "raw \<noteq> []" by (auto dest: check_batch_nonempty)
  moreover from normalize_items_again [OF ni] have
    len: "length ns = length raw" and vi: "validate_items (lax E) ?its = Inr ()" by simp_all
  ultimately have ne: "?its \<noteq> []" by auto
  have nb: "normalized ''batch'' = Some (JList ?its)"
    using n p pp items raw ni
    by (auto simp add: normalize_and_validate_def Let_def split: if_splits)
  have nseed: "normalized ''base_seed'' = None"
    using batch_never_seeded [OF n i b] .
  let ?job_id = "job_id_of E job"
  let ?base = "base_workdir_of E ?job_id"
  let ?w1 = "maybe_keep_warm E (log_event ''INFO'' ''received'' None w)"
  from dirs have d: "makedirs E (trace ?w1) ?base = None" by simp
  from run_items_spec [OF validate_items_ids [OF vi] dirs, of ?job_id ?base 0 ?w1]
  obtain out_items w' where
    ri: "run_items E ?job_id ?base 0 ?its ?w1 = (Inr out_items, w')" and
    ln: "length out_items = length ?its" and
    each: "\<forall>k < length ?its. \<exists>item wk. ?its ! k = JDict item
                 \<and> item_id_of E item (0 + k) = Inr (fst (out_items ! k))
                 \<and> snd (out_items ! k)
                     = fst (run_single_item E ?job_id item (path_join ?base (fst (out_items ! k))) wk)
                 \<and> (\<exists>rest. map event (checkpoints_of (snd (out_items ! k))) = ''validated'' # rest)"
    by blast
  let ?out = "\<lparr>b_job_id = ?job_id,
               b_status = (if list_all (\<lambda>x. status_of (snd x) = ''success'') out_items
                           then ''success'' else ''partial''),
               b_items = out_items\<rparr>"
  have run: "run E job w = (Inr (Batch ?out), w')"
    unfolding run_created [OF g n d]
    using nb nseed ri by (simp add: seed_rng_def batch_iter_def)
  have st: "(b_status ?out = ''success'')
              = (\<forall>x \<in> set (b_items ?out). status_of (snd x) = ''success'')"
    by (simp add: list_all_iff)
  have pt: "(\<exists>x \<in> set (b_items ?out). status_of (snd x) \<noteq> ''success'')
              \<longrightarrow> b_status ?out = ''partial''"
    by (auto simp add: list_all_iff)
  from each have each': "\<forall>k < length ?its. \<exists>item wk. ?its ! k = JDict item
                 \<and> item_id_of E item k = Inr (fst (b_items ?out ! k))
                 \<and> snd (b_items ?out ! k)
                     = fst (run_single_item E ?job_id item
                              (path_join ?base (fst (b_items ?out ! k))) wk)
                 \<and> (\<exists>rest. map event (checkpoints_of (snd (b_items ?out ! k)))
                             = ''validated'' # rest)"
    by simp
  have ln': "length (b_items ?out) = length ?its" using ln by simp
  from nb ne run ln' each' st pt show ?thesis
    by (intro exI [of _ ?its] exI [of _ ?out] exI [of _ w'] conjI)
qed

section \<open>The retry inside the generation\<close>

lemma generates_of_append: "generates_of (xs @ ys) = generates_of xs @ generates_of ys"
  by (induction xs rule: generates_of.induct) simp_all

lemma download_loop_generates:
  "download_loop E url wd fn cs as lerr w = (r, w') \<Longrightarrow>
     generates_of (trace w') = generates_of (trace w)"
proof (induction as arbitrary: lerr w)
  case Nil
  then show ?case by (auto split: option.splits)
next
  case (Cons a as)
  let ?w1 = "emit_event (HttpGet url) w"
  have g1: "generates_of (trace ?w1) = generates_of (trace w)"
    by (simp add: emit_event_def generates_of_append)
  show ?case
  proof (cases "attempt_result E url wd fn cs (length (gets_of (trace w)))")
    case (Inr res)
    with Cons.prems g1 show ?thesis by (auto simp add: download_attempt_def)
  next
    case (Inl e)
    show ?thesis
    proof (cases "a = MAX_RETRIES")
      case True
      with Inl Cons.prems g1 show ?thesis by (auto simp add: download_attempt_def)
    next
      case False
      let ?w2 = "emit_event (Sleep (BACKOFF_SEC * real a)) ?w1"
      from False Inl Cons.prems have
        "download_loop E url wd fn cs as (Some e) ?w2 = (r, w')"
        by (simp add: download_attempt_def)
      from Cons.IH [OF this] have "generates_of (trace w') = generates_of (trace ?w2)" .
      then show ?thesis by (simp add: emit_event_def generates_of_append)
    qed
  qed
qed

lemma download_from_url_generates:
  "download_from_url E ref wd fn cs w = (r, w') \<Longrightarrow>
     generates_of (trace w') = generates_of (trace w)"
  by (auto simp add: download_from_url_def split: if_splits sum.splits
      dest: download_loop_generates)

lemma download_ref_generates:
  "download_ref E v wd fn w = (r, w') \<Longrightarrow> generates_of (trace w') = generates_of (trace w)"
  by (auto simp add: download_ref_def split: jv.splits dest: download_from_url_generates)

lemma two_speakers_generates:
  "two_speakers E params ca wd idata w = (r, w') \<Longrightarrow>
     generates_of (trace w') = generates_of (trace w)"
  unfolding two_speakers_def
  by (auto simp add: Let_def split: prod.splits sum.splits option.splits
      dest!: download_ref_generates)

lemma single_speaker_generates:
  "single_speaker E ca wd idata w = (r, w') \<Longrightarrow>
     generates_of (trace w') = generates_of (trace w)"
  unfolding single_speaker_def
  by (auto simp add: Let_def split: prod.splits sum.splits option.splits
      dest!: download_ref_generates)

lemma audio_inputs_generates:
  "audio_inputs E params wd idata w = (r, w') \<Longrightarrow>
     generates_of (trace w') = generates_of (trace w)"
  unfolding audio_inputs_def
  by (auto split: option.splits bool.splits jv.splits if_splits
      dest: two_speakers_generates single_speaker_generates)

lemma prepare_inputs_generates:
  "prepare_inputs E params wd w = (r, w') \<Longrightarrow>
     generates_of (trace w') = generates_of (trace w)"
  unfolding prepare_inputs_def
  by (auto split: option.splits prod.splits sum.splits if_splits
      dest!: download_ref_generates audio_inputs_generates)

lemma build_pipeline_checked_generates:
  "build_pipeline_checked E params w = (r, w') \<Longrightarrow>
     generates_of (trace w') = generates_of (trace w)"
  by (auto simp add: build_pipeline_checked_def emit_event_def generates_of_append
      split: if_splits)

lemma save_video_generates:
  "save_video E params wd w = (r, w') \<Longrightarrow> generates_of (trace w') = generates_of (trace w)"
  by (auto simp add: save_video_def Let_def emit_event_def generates_of_append
      split: option.splits sum.splits)

lemma run_generate_generates:
  "run_generate E params w = (r, w') \<Longrightarrow>
     (params ''size'' = None \<and> generates_of (trace w') = generates_of (trace w))
     \<or> (\<exists>sz. params ''size'' = Some sz
            \<and> r = generate_infinitetalk E (length (generates_of (trace w))) (generate_args params sz)
            \<and> generates_of (trace w') = generates_of (trace w) @ [generate_args params sz])"
  by (auto simp add: run_generate_def emit_event_def generates_of_append split: option.splits)

lemma oom_retry_generates:
  assumes "oom_retry E params w = (r, w')"
  shows "generates_of (trace w') = generates_of (trace w)
       \<or> (\<exists>steps. py_int E (get_or params ''sample_steps'' (JInt 40)) = Inr steps
             \<and> generates_of (trace w')
                 = generates_of (trace w)
                   @ [generate_args (reduced params steps) (JStr ''infinitetalk-480'')])"
proof (cases "py_int E (get_or params ''sample_steps'' (JInt 40))")
  case (Inl e)
  with assms show ?thesis by (simp add: oom_retry_def)
next
  case (Inr steps)
  let ?w0 = "emit ''WARN'' ''oom_retry'' None w"
  have g0: "generates_of (trace ?w0) = generates_of (trace w)"
    by (simp add: emit_def generates_of_append)
  obtain rb w1 where b: "build_pipeline_checked E (reduced params steps) ?w0 = (rb, w1)"
    by (cases "build_pipeline_checked E (reduced params steps) ?w0")
  from build_pipeline_checked_generates [OF b] g0 have
    g1: "generates_of (trace w1) = generates_of (trace w)" by simp
  show ?thesis
  proof (cases rb)
    case (Some e)
    with Inr b assms g1 show ?thesis by (simp add: oom_retry_def)
  next
    case None
    with Inr b assms have g: "run_generate E (reduced params steps) w1 = (r, w')"
      by (simp add: oom_retry_def)
    have sz: "reduced params steps ''size'' = Some (JStr ''infinitetalk-480'')"
      by (simp add: reduced_def)
    from run_generate_generates [OF g] sz g1 Inr show ?thesis by auto
  qed
qed

lemma reduced_args:
  "size_buckget (generate_args (reduced params steps) (JStr ''infinitetalk-480''))
     = JStr ''infinitetalk-480''
   \<and> sampling_steps (generate_args (reduced params steps) (JStr ''infinitetalk-480''))
     = JInt (min 8 steps)"
  by (simp add: generate_args_def reduced_def get_or_def)

text \<open>
  The generation calls of one \<^verbatim>\<open>run_inference\<close>: at most two, and two only when the
  first raised the out-of-memory error; the second is then made with the size
  \<^verbatim>\<open>infinitetalk-480\<close> and the steps capped at 8. No other failure is retried.
\<close>

lemma run_inference_generates:
  assumes "run_inference E params wd w = (r, w')"
  shows "\<exists>gs. generates_of (trace w') = generates_of (trace w) @ gs \<and> length gs \<le> 2
           \<and> (length gs = 2 \<longrightarrow>
                 (\<exists>sz steps e. params ''size'' = Some sz
                    \<and> generate_infinitetalk E (length (generates_of (trace w)))
                          (generate_args params sz) = Some e
                    \<and> is_OutOfMemoryError e
                    \<and> py_int E (get_or params ''sample_steps'' (JInt 40)) = Inr steps
                    \<and> gs = [generate_args params sz,
                            generate_args (reduced params steps) (JStr ''infinitetalk-480'')]
                    \<and> size_buckget (gs ! 1) = JStr ''infinitetalk-480''
                    \<and> sampling_steps (gs ! 1) = JInt (min 8 steps)))"
proof (cases "makedirs E (trace w) wd")
  case (Some e)
  from assms run_inference_not_created [OF Some] show ?thesis by simp
next
  case None
  note created = run_inference_created [OF None]
  obtain r1 w1 where p: "prepare_inputs E params wd w = (r1, w1)"
    by (cases "prepare_inputs E params wd w")
  note g1 = prepare_inputs_generates [OF p]
  show ?thesis
  proof (cases r1)
    case (Inl e)
    with p assms g1 show ?thesis by (simp add: created)
  next
    case (Inr idata)
    obtain r2 w2 where b: "build_pipeline_checked E params w1 = (r2, w2)"
      by (cases "build_pipeline_checked E params w1")
    from build_pipeline_checked_generates [OF b] g1 have
      g2: "generates_of (trace w2) = generates_of (trace w)" by simp
    show ?thesis
    proof (cases r2)
      case (Some e)
      with p Inr b assms g2 show ?thesis by (simp add: created)
    next
      case None
      obtain r3 w3 where g: "run_generate E params w2 = (r3, w3)"
        by (cases "run_generate E params w2")
      note rg = run_generate_generates [OF g]
      show ?thesis
      proof (cases r3)
        case None
        with p Inr b \<open>r2 = None\<close> g assms have "save_video E params wd w3 = (r, w')"
          by (simp add: created)
        from save_video_generates [OF this] rg g2 show ?thesis by auto
      next
        case (Some e)
        show ?thesis
        proof (cases "is_OutOfMemoryError e")
          case False
          with Some p Inr b \<open>r2 = None\<close> g assms have "w' = w3"
            by (simp add: created)
          with rg g2 show ?thesis by auto
        next
          case True
          from Some g have sz: "\<exists>sz. params ''size'' = Some sz
              \<and> generate_infinitetalk E (length (generates_of (trace w)))
                    (generate_args params sz) = Some e
              \<and> generates_of (trace w3) = generates_of (trace w) @ [generate_args params sz]
              \<or> (params ''size'' = None \<and> generates_of (trace w3) = generates_of (trace w))"
            using rg g2 by auto
          obtain r4 w4 where o: "oom_retry E params w3 = (r4, w4)"
            by (cases "oom_retry E params w3")
          note og = oom_retry_generates [OF o]
          have g4: "generates_of (trace w') = generates_of (trace w4)"
          proof (cases r4)
            case (Some e2)
            with True \<open>r3 = Some e\<close> p Inr b \<open>r2 = None\<close> g o assms show ?thesis
              by (simp add: created)
          next
            case None
            with True \<open>r3 = Some e\<close> p Inr b \<open>r2 = None\<close> g o assms
            have "save_video E params wd w4 = (r, w')"
              by (simp add: created)
            from save_video_generates [OF this] show ?thesis .
          qed
          from sz consider
            (called) sz0 where "params ''size'' = Some sz0"
              "generate_infinitetalk E (length (generates_of (trace w)))
                 (generate_args params sz0) = Some e"
              "generates_of (trace w3) = generates_of (trace w) @ [generate_args params sz0]"
            | (nosize) "generates_of (trace w3) = generates_of (trace w)"
            by blast
          then show ?thesis
          proof cases
            case nosize
            from og show ?thesis
            proof
              assume "generates_of (trace w4) = generates_of (trace w3)"
              with nosize g4 show ?thesis by (intro exI [of _ "[]"]) simp
            next
              assume "\<exists>steps. py_int E (get_or params ''sample_steps'' (JInt 40)) = Inr steps
                 \<and> generates_of (trace w4)
                     = generates_of (trace w3)
                       @ [generate_args (reduced params steps) (JStr ''infinitetalk-480'')]"
              then obtain steps where "generates_of (trace w4)
                     = generates_of (trace w3)
                       @ [generate_args (reduced params steps) (JStr ''infinitetalk-480'')]"
                by blast
              with nosize g4 show ?thesis
                by (intro exI [of _ "[generate_args (reduced params steps) (JStr ''infinitetalk-480'')]"])
                   simp
            qed
          next
            case called
            from og show ?thesis
            proof
              assume "generates_of (trace w4) = generates_of (trace w3)"
              with called g4 show ?thesis
                by (intro exI [of _ "[generate_args params sz0]"]) simp
            next
              assume "\<exists>steps. py_int E (get_or params ''sample_steps'' (JInt 40)) = Inr steps
                 \<and> generates_of (trace w4)
                     = generates_of (trace w3)
                       @ [generate_args (reduced params steps) (JStr ''infinitetalk-480'')]"
              then obtain steps where
                st: "py_int E (get_or params ''sample_steps'' (JInt 40)) = Inr steps" and
                g: "generates_of (trace w4)
                     = generates_of (trace w3)
                       @ [generate_args (reduced params steps) (JStr ''infinitetalk-480'')]"
                by blast
              let ?gs = "[generate_args params sz0,
                          generate_args (reduced params steps) (JStr ''infinitetalk-480'')]"
              have tr: "generates_of (trace w') = generates_of (trace w) @ ?gs"
                using g g4 called(3) by simp
              have ex: "\<exists>sz steps' e'. params ''size'' = Some sz
                    \<and> generate_infinitetalk E (length (generates_of (trace w)))
                          (generate_args params sz) = Some e'
                    \<and> is_OutOfMemoryError e'
                    \<and> py_int E (get_or params ''sample_steps'' (JInt 40)) = Inr steps'
                    \<and> ?gs = [generate_args params sz,
                            generate_args (reduced params steps') (JStr ''infinitetalk-480'')]
                    \<and> size_buckget (?gs ! 1) = JStr ''infinitetalk-480''
                    \<and> sampling_steps (?gs ! 1) = JInt (min 8 steps')"
                using called(1,2) True st reduced_args [of params steps]
                by (intro exI [of _ sz0] exI [of _ steps] exI [of _ e]) simp
              from tr ex show ?thesis by (intro exI [of _ ?gs]) simp
            qed
          qed
        qed
      qed
    qed
  qed
qed

section \<open>The orchestrator on examples\<close>

text \<open>The definitions unfolded when an example is evaluated.\<close>

lemmas env_defs = example_env_def strict_json_def example_defaults_def

lemmas schema_defs = normalize_and_validate_def EnvelopeInput_model_validate_def
  check_single_or_batch_def apply_defaults_to_single_def generation_of_def
  SingleInput_model_validate_def SingleInput_fields_def generation_fields_def
  BatchInput_model_validate_def BatchInput_fields_def int_list_ok_def
  required_def defaulted_def bbox_field_def frame_num_field_def validate_audio_refs_def
  field_none_def str_min1_def is_str_def nullable_def CondAudio_ok_def
  OutputConfig_ok_def literal_def STORE_ENUM_def SIZE_ENUM_def is_int_def is_dict_def
  validate_frame_num_4n_plus_1_def

lemmas pipeline_defs = run_inference_def prepare_inputs_def download_ref_def download_from_url_def
  is_base64_payload_def MAX_RETRIES_def upt_conv_Cons download_attempt_def attempt_result_def
  emit_event_def attempt_name_def mime_to_ext_def path_join_def unset_def audio_inputs_def
  and_get_def single_speaker_def two_speakers_def get_or_def build_pipeline_checked_def
  run_generate_def generate_args_def save_video_def emit_def oom_retry_def reduced_def
  is_OutOfMemoryError_def

lemmas handler_defs = run_single_item_def before_generation_def cp_def progress_def
  log_event_def upper_def upper_char_def after_generation_def upload_artifacts_if_any_def
  cfg_dict_def make_artifact_def success_output_of_def status_of_def checkpoints_of_def
  caught_def except_clauses_def error_output_of_def build_error_def ERROR_RETRYABLE_def
  is_RuntimeError_def class_name_def lower_def lower_char_def error_of_def

lemmas run_defs = job_id_of_def get_logger_def format_value_def base_workdir_of_def
  maybe_keep_warm_def seed_rng_def seed_everything_def batch_iter_def


lemma example_batch_normalizes:
  "normalize_and_validate (lax first_fails_env) example_batch_job (defaults_doc first_fails_env)
     = Inr example_batch_normalized"
  by (simp add: schema_defs env_defs first_fails_env_def example_batch_job_def example_params_def
      example_payload_def example_batch_normalized_def Let_def)

lemma example_batch_run:
  "(case fst (run first_fails_env example_batch_job world0) of
      Inr (Batch out) \<Rightarrow>
        b_status out = ''partial''
        \<and> map (\<lambda>x. (fst x, status_of (snd x), map_option code (error_of (snd x)))) (b_items out)
            = [(''item-0'', ''error'', Some ''E_GENERATION_RUNTIME''), (''second'', ''success'', None)]
    | _ \<Rightarrow> False)"
proof -
  have g: "get_logger (job_id_of first_fails_env example_batch_job) = None"
    by (simp add: get_logger_def job_id_of_def example_batch_job_def)
  have d: "makedirs first_fails_env evs p = None" for evs p
    by (simp add: first_fails_env_def example_env_def)
  show ?thesis
    unfolding run_created [OF g example_batch_normalizes d]
    by (simp add: run_defs item_id_of_def show_nat.simps example_batch_normalized_def
        handler_defs pipeline_defs first_fails_env_def env_defs example_params_def
        example_payload_def example_batch_job_def world0_def Let_def field_none_def)
qed

lemma example_item_run:
  "status_of (fst (run_single_item example_env (JStr ''job-1'') example_params ''/tmp/job-job-1'' world0))
     = ''success''
   \<and> map event (checkpoints_of
        (fst (run_single_item example_env (JStr ''job-1'') example_params ''/tmp/job-job-1'' world0)))
     = [''validated'', ''models_loading'', ''models_ready'', ''preprocessing_done'',
        ''generation_start'', ''postprocess_mux'', ''uploading_artifacts'', ''completed'']"
  by (simp add: handler_defs pipeline_defs env_defs example_params_def example_payload_def
      world0_def Let_def field_none_def)

theorem successful_item_checkpoints_witness:
  "status_of (fst (run_single_item example_env (JStr ''job-1'') example_params ''/tmp/job-job-1'' world0))
     = ''success''
   \<and> progress_of (trace (snd
        (run_single_item example_env (JStr ''job-1'') example_params ''/tmp/job-job-1'' world0)))
     = [(''validated'', 2), (''models_loading'', 15), (''models_ready'', 18),
        (''preprocessing_done'', 19), (''generation_start'', 20),
        (''postprocess_mux'', 90), (''uploading_artifacts'', 92), (''completed'', 100)]"
proof -
  let ?X = "run_single_item example_env (JStr ''job-1'') example_params ''/tmp/job-job-1'' world0"
  from example_item_run have st: "status_of (fst ?X) = ''success''" by simp
  then obtain out where "fst ?X = Success out"
    by (cases "fst ?X") (simp_all add: status_of_def)
  then have "?X = (Success out, snd ?X)" by (simp add: prod_eq_iff)
  from successful_item_checkpoints [OF this] st show ?thesis
    by (simp add: world0_def)
qed

text \<open>
  C1 as stated fails: a successful item has eight checkpoints, and neither
  \<^verbatim>\<open>received\<close> nor \<^verbatim>\<open>generation_done\<close> is one of them.
\<close>

theorem ten_checkpoints_counterexample:
  "status_of (fst (run_single_item example_env (JStr ''job-1'') example_params ''/tmp/job-job-1'' world0))
     = ''success''
   \<and> map event (checkpoints_of
        (fst (run_single_item example_env (JStr ''job-1'') example_params ''/tmp/job-job-1'' world0)))
     \<noteq> [''received'', ''validated'', ''models_loading'', ''models_ready'',
         ''preprocessing_done'', ''generation_start'', ''generation_done'',
         ''postprocess_mux'', ''uploading_artifacts'', ''completed'']
   \<and> length (checkpoints_of
        (fst (run_single_item example_env (JStr ''job-1'') example_params ''/tmp/job-job-1'' world0)))
     = 8"
proof -
  let ?c = "checkpoints_of
        (fst (run_single_item example_env (JStr ''job-1'') example_params ''/tmp/job-job-1'' world0))"
  from example_item_run have m: "map event ?c
     = [''validated'', ''models_loading'', ''models_ready'', ''preprocessing_done'',
        ''generation_start'', ''postprocess_mux'', ''uploading_artifacts'', ''completed'']"
    by simp
  then have "length (map event ?c) = 8" by simp
  then have "length ?c = 8" by simp
  with m example_item_run show ?thesis by simp
qed

text \<open>
  C4, evaluated where the generation runs out of GPU memory at the first call and again at
  the retry. The retry is made once, with the size forced to \<^verbatim>\<open>infinitetalk-480\<close> and
  the steps capped at 8; but the exception of the retry is a \<^verbatim>\<open>RuntimeError\<close> for the
  first \<^verbatim>\<open>except\<close> clause, and the envelope carries \<^verbatim>\<open>E_GENERATION_RUNTIME\<close> at stage
  \<^verbatim>\<open>runtime\<close>, not \<^verbatim>\<open>E_OOM\<close>.
\<close>

theorem oom_after_retry_reported_as_runtime:
  "map_option code (error_of
     (fst (run_single_item oom_env (JStr ''job-1'') example_params ''/tmp/job-job-1'' world0)))
     = Some ''E_GENERATION_RUNTIME''
   \<and> map_option at_stage (error_of
     (fst (run_single_item oom_env (JStr ''job-1'') example_params ''/tmp/job-job-1'' world0)))
     = Some (Some ''runtime'')
   \<and> map (\<lambda>a. (size_buckget a, sampling_steps a))
       (generates_of (trace
          (snd (run_single_item oom_env (JStr ''job-1'') example_params ''/tmp/job-job-1'' world0))))
     = [(JStr ''infinitetalk-720'', JInt 40), (JStr ''infinitetalk-480'', JInt 8)]"
  by (simp add: handler_defs pipeline_defs oom_env_def env_defs example_params_def
      example_payload_def world0_def Let_def field_none_def)

text \<open>
  C5, evaluated where \<^verbatim>\<open>WAV2VEC_DIR\<close> is not set. The pipeline raises the
  \<^verbatim>\<open>RuntimeError\<close> whose message names \<^verbatim>\<open>WAV2VEC_DIR\<close> and the audio embedding; the
  first \<^verbatim>\<open>except\<close> clause takes it, and the envelope carries \<^verbatim>\<open>E_GENERATION_RUNTIME\<close>,
  not retryable. The inspection of the message, which the same message would send to
  \<^verbatim>\<open>E_AUDIO_EMBEDDING\<close> (retryable), is never reached.
\<close>

theorem wav2vec_error_reported_as_runtime:
  "map_option (\<lambda>d. (code d, retryable d, at_stage d, cause_class d, message d)) (error_of
     (fst (run_single_item no_wav2vec_env (JStr ''job-1'') example_params ''/tmp/job-job-1'' world0)))
     = Some (''E_GENERATION_RUNTIME'', False, Some ''runtime'', Some ''RuntimeError'',
             ''WAV2VEC_DIR env var is required for audio embedding.'')
   \<and> fst (except_clauses (Exn ValueError ''WAV2VEC_DIR env var is required for audio embedding.''))
     = ''E_AUDIO_EMBEDDING''
   \<and> map_of ERROR_RETRYABLE ''E_AUDIO_EMBEDDING'' = Some True"
  by (simp add: handler_defs pipeline_defs no_wav2vec_env_def env_defs example_params_def
      example_payload_def world0_def Let_def field_none_def)

text \<open>
  The code assigned at the catch site: the inspection of the message applies to the
  exceptions that are no \<^verbatim>\<open>RuntimeError\<close>; the retryable flag is the table's.
\<close>

lemma except_clauses_inspection:
  "\<not> is_RuntimeError e \<Longrightarrow>
     fst (except_clauses e)
       = (if cls e = MemoryError then ''E_OOM''
          else if contains ''ffmpeg'' (lower (msg e)) then ''E_FFMPEG''
          else if contains ''WAV2VEC_DIR'' (msg e) \<or> contains ''audio embedding'' (lower (msg e))
          then ''E_AUDIO_EMBEDDING''
          else ''E_GENERATION_RUNTIME'')"
  by (simp add: except_clauses_def)

lemma except_clauses_runtime:
  "is_RuntimeError e \<Longrightarrow>
     fst (except_clauses e)
       = (if contains ''Model paths'' (msg e) then ''E_PIPELINE_LOAD'' else ''E_GENERATION_RUNTIME'')"
  by (simp add: except_clauses_def)

lemma caught_retryable_from_table:
  "error_of (caught job_id e c t) = Some d \<Longrightarrow>
     code d = fst (except_clauses e)
     \<and> retryable d = (case map_of ERROR_RETRYABLE (code d) of Some r \<Rightarrow> r | None \<Rightarrow> False)"
  by (auto simp add: caught_def error_of_def error_output_of_def build_error_def
      split: prod.splits)




text \<open>
  Where every working directory can be made, the batch loop isolates its items: the first
  item's generation fails, the second succeeds, and the batch is \<^verbatim>\<open>partial\<close>.
\<close>

lemma batch_items_with_directories_example:
  "(case fst (run first_fails_env example_batch_job world0) of
        Inr (Batch out) \<Rightarrow>
          b_status out = ''partial''
          \<and> map (\<lambda>x. (fst x, status_of (snd x), map_option code (error_of (snd x)))) (b_items out)
              = [(''item-0'', ''error'', Some ''E_GENERATION_RUNTIME''), (''second'', ''success'', None)]
      | _ \<Rightarrow> False)
   \<and> (\<exists>its out w'. example_batch_normalized ''batch'' = Some (JList its)
          \<and> run first_fails_env example_batch_job world0 = (Inr (Batch out), w')
          \<and> length (b_items out) = length its
          \<and> ((b_status out = ''success'')
                = (\<forall>x \<in> set (b_items out). status_of (snd x) = ''success'')))"
proof -
  have h2: "example_batch_job ''input''
       = Some (JDict [''batch'' \<mapsto>
                 JList [JDict example_params, JDict (example_params(''id'' \<mapsto> JStr ''second''))]])"
    by (simp add: example_batch_job_def)
  have h3: "''batch'' \<in> dom [''batch'' \<mapsto>
                 JList [JDict example_params, JDict (example_params(''id'' \<mapsto> JStr ''second''))]]"
    by simp
  have g: "get_logger (job_id_of first_fails_env example_batch_job) = None"
    by (simp add: get_logger_def job_id_of_def example_batch_job_def)
  have d: "\<forall>evs p. makedirs first_fails_env evs p = None"
    by (simp add: first_fails_env_def example_env_def)
  from batch_items_with_directories [OF example_batch_normalizes h2 h3 g d, of world0]
  have "\<exists>its out w'. example_batch_normalized ''batch'' = Some (JList its)
          \<and> run first_fails_env example_batch_job world0 = (Inr (Batch out), w')
          \<and> length (b_items out) = length its
          \<and> ((b_status out = ''success'')
                = (\<forall>x \<in> set (b_items out). status_of (snd x) = ''success''))"
    by blast
  with example_batch_run show ?thesis by blast
qed

lemma nul_batch_normalizes:
  "normalize_and_validate (lax nul_env) nul_batch_job (defaults_doc nul_env)
     = Inr nul_batch_normalized"
  by (simp add: schema_defs env_defs nul_env_def nul_batch_job_def example_params_def
      example_payload_def nul_batch_normalized_def Let_def)

text \<open>
  C3, evaluated on a valid batch of three items whose second id holds a NUL character.
  The first item runs to its last checkpoint; then \<^verbatim>\<open>os.makedirs\<close> raises on the
  working directory of the second item, outside every \<^verbatim>\<open>try\<close>, and the exception
  escapes \<^verbatim>\<open>run\<close>: the result of the first item is lost, the third item is never run
  (the progress lines are those of one item) and no batch result is returned. Inside
  \<^verbatim>\<open>run_inference\<close> the same call on the same directory is caught and becomes the
  item's error envelope.
\<close>

theorem batch_lost_when_item_directory_fails:
  "normalize_and_validate (lax nul_env) nul_batch_job (defaults_doc nul_env)
     = Inr nul_batch_normalized
   \<and> (case run nul_env nul_batch_job world0 of
        (r, w') \<Rightarrow>
          r = Inl (Exn ValueError ''embedded null byte'')
          \<and> progress_of (trace w')
              = [(''validated'', 2), (''models_loading'', 15), (''models_ready'', 18),
                 (''preprocessing_done'', 19), (''generation_start'', 20),
                 (''postprocess_mux'', 90), (''uploading_artifacts'', 92), (''completed'', 100)])
   \<and> status_of (fst (run_single_item nul_env (JStr ''job-4'') example_params
                         (''/tmp/job-job-4/'' @ [CHR ''a'', CHR 0x00]) world0)) = ''error''"
proof -
  have g: "get_logger (job_id_of nul_env nul_batch_job) = None"
    by (simp add: get_logger_def job_id_of_def nul_batch_job_def)
  have d: "makedirs nul_env evs (base_workdir_of nul_env (job_id_of nul_env nul_batch_job)) = None"
    for evs
    by (simp add: nul_env_def run_defs nul_batch_job_def path_join_def)
  have r: "(case run nul_env nul_batch_job world0 of
        (r, w') \<Rightarrow>
          r = Inl (Exn ValueError ''embedded null byte'')
          \<and> progress_of (trace w')
              = [(''validated'', 2), (''models_loading'', 15), (''models_ready'', 18),
                 (''preprocessing_done'', 19), (''generation_start'', 20),
                 (''postprocess_mux'', 90), (''uploading_artifacts'', 92), (''completed'', 100)])"
    unfolding run_created [OF g nul_batch_normalizes d]
    by (simp add: run_defs item_id_of_def show_nat.simps nul_batch_normalized_def
        handler_defs pipeline_defs nul_env_def env_defs example_params_def
        example_payload_def nul_batch_job_def world0_def Let_def field_none_def)
  have e: "status_of (fst (run_single_item nul_env (JStr ''job-4'') example_params
                         (''/tmp/job-job-4/'' @ [CHR ''a'', CHR 0x00]) world0)) = ''error''"
    by (simp add: handler_defs pipeline_defs nul_env_def env_defs example_params_def
        example_payload_def world0_def Let_def field_none_def)
  from nul_batch_normalizes r e show ?thesis by simp
qed

text \<open>
  A job id that is a number: the item runs to its last checkpoint, the \<^verbatim>\<open>SuccessOutput\<close>
  model rejects the envelope, and the item ends as an error with all eight checkpoints.
\<close>

lemma numeric_job_id_ends_as_error:
  "job_id_of example_env [''id'' \<mapsto> JInt 5] = JInt 5
   \<and> base_workdir_of example_env (JInt 5) = ''/tmp/job-5''
   \<and> map_option code (error_of
       (fst (run_single_item example_env (JInt 5) example_params ''/tmp/job-5'' world0)))
     = Some ''E_GENERATION_RUNTIME''
   \<and> map event (checkpoints_of
       (fst (run_single_item example_env (JInt 5) example_params ''/tmp/job-5'' world0)))
     = [''validated'', ''models_loading'', ''models_ready'', ''preprocessing_done'',
        ''generation_start'', ''postprocess_mux'', ''uploading_artifacts'', ''completed'']"
  by (simp add: run_defs show_int_def show_nat.simps handler_defs pipeline_defs env_defs
      example_params_def example_payload_def world0_def Let_def field_none_def)

end
